theory Spec2Isabelle
  imports Main "HOL-Library.Log_Nat"
begin

section \<open>JavaScript numbers\<close>

text \<open>
  The services compute money with JavaScript numbers, that is IEEE 754 binary64. A finite
  number is modelled by the rational it denotes, and every arithmetic operation returns
  the exact result rounded to the nearest binary64 value, ties to even (\<open>rnd64\<close>):
  53 significant bits, and the fixed quantum \<open>2^-1074\<close> in the subnormal range.
  Not modelled: overflow to \<open>Infinity\<close> (magnitudes from \<open>2^1024\<close> on), \<open>NaN\<close>, and the sign
  of zero; prices are DECIMAL columns and quantities are validated integers, so none of
  them arises from the data of this program.
\<close>

type_synonym number = rat

definition pow2 :: "int \<Rightarrow> rat" where
  "pow2 k = (if 0 \<le> k then 2 ^ nat k else 1 / 2 ^ nat (- k))"

text \<open>For \<open>a > 0\<close>, the exponent \<open>e\<close> with \<open>2^e \<le> a < 2^(e+1)\<close>.\<close>

definition floorlog2 :: "rat \<Rightarrow> int" where
  "floorlog2 a = (let (p, q) = quotient_of a; d = bitlen p - bitlen q
                  in if pow2 d \<le> a then d else d - 1)"

definition roundHalfEven :: "rat \<Rightarrow> int" where
  "roundHalfEven m =
     (let n = \<lfloor>m\<rfloor>; r = m - of_int n
      in if r < 1 / 2 then n else if 1 / 2 < r then n + 1 else if even n then n else n + 1)"

definition rnd64 :: "rat \<Rightarrow> number" where
  "rnd64 x =
     (if x = 0 then 0
      else let q = max (floorlog2 \<bar>x\<bar> - 52) (- 1074)
           in of_int (roundHalfEven (x / pow2 q)) * pow2 q)"

definition fadd :: "number \<Rightarrow> number \<Rightarrow> number" where
  "fadd x y = rnd64 (x + y)"

definition fmul :: "number \<Rightarrow> number \<Rightarrow> number" where
  "fmul x y = rnd64 (x * y)"

definition fdiv :: "number \<Rightarrow> number \<Rightarrow> number" where
  "fdiv x y = rnd64 (x / y)"

text \<open>\<open>Math.round\<close>: the nearest integer, a tie going up. The result is exact.\<close>

definition Math_round :: "number \<Rightarrow> number" where
  "Math_round x = of_int \<lfloor>x + 1 / 2\<rfloor>"

text \<open>\<open>Number(d)\<close> of a Prisma \<open>Decimal\<close>, and a decimal literal of the source text: the
  nearest binary64 value.\<close>

definition Number :: "rat \<Rightarrow> number" where
  "Number d = rnd64 d"

definition TAX_RATE :: number where
  "TAX_RATE = rnd64 (635 / 10000)"

definition BASE_PREP_TIME_MINUTES :: int where
  "BASE_PREP_TIME_MINUTES = 5"

definition TIME_PER_5_ITEMS :: int where
  "TIME_PER_5_ITEMS = 2"

definition TIME_ROUNDING :: int where
  "TIME_ROUNDING = 5"

section \<open>Enumerations and errors\<close>

text \<open>
  The Prisma enums. Three of them have a member PENDING and two a member KITCHEN, so
  the payment status is written \<open>PAYMENT_PENDING\<close> and \<open>PAYMENT_FAILED\<close>, and the status
  PENDING of a print job \<open>PRINT_PENDING\<close>.
\<close>

datatype OrderStatus = PENDING | CONFIRMED | PREPARING | READY | COMPLETED | CANCELLED

datatype PaymentStatus = PAYMENT_PENDING | PAID | PAYMENT_FAILED | REFUNDED

datatype PrinterType = KITCHEN | BEVERAGE

datatype PrintStatus = PRINT_PENDING | SENT | PRINTED | FAILED

text \<open>
  Every \<open>throw new Error(...)\<close> of the services is a constructor carrying the values its
  message interpolates; the two Prisma errors are the ones \<open>update\<close>, \<open>delete\<close> and
  \<open>create\<close> raise for a missing row or a missing referenced row; \<open>StripeError\<close> is
  what \<open>handleStripeError\<close> makes of a failure of the gateway.
\<close>

datatype error =
    PrismaRecordNotFound
  | PrismaForeignKey
  | StripeError string
  | MenuItemNotFound nat
  | MenuItemNotAvailable string
  | ModifierNotFound nat
  | ModifierNotAvailable string
  | ModifierDoesNotBelong string string
  | RequiresAtLeast string int
  | AllowsMaximum string int
  | PaymentFailed string
  | UserNotFound
  | OrderNotFound
  | InvalidStatusTransition OrderStatus OrderStatus
  | NoPaymentToRefund
  | OrderAlreadyRefunded
  | RefundExceedsTotal
  | Failure string

section \<open>Print service (src/services/print.service.ts)\<close>

text \<open>
  An item's \<open>printerDestination\<close> reaches the print service as a string
  (\<open>KITCHEN\<close>, \<open>BEVERAGE\<close> or \<open>BOTH\<close>) and is compared with \<open>===\<close> to the printer
  type, itself a string enum; \<open>printerTypeName\<close> is that string.
\<close>

fun printerTypeName :: "PrinterType \<Rightarrow> string" where
  "printerTypeName KITCHEN = ''KITCHEN''"
| "printerTypeName BEVERAGE = ''BEVERAGE''"

text \<open>The interface \<open>OrderWithItems\<close>: the order as \<open>createPrintJobs\<close> receives it.\<close>

record OrderItemWithMenu =
  oi_id :: nat
  oi_quantity :: int
  oi_specialInstructions :: "string option"
  oi_menuItemName :: string
  oi_printerDestination :: string
  oi_selectedModifiers :: "string list"

record OrderUser =
  u_email :: string
  u_firstName :: "string option"
  u_lastName :: "string option"

record OrderWithItems =
  owi_id :: nat
  owi_orderNumber :: int
  owi_createdAt :: int
  owi_specialInstructions :: "string option"
  owi_user :: OrderUser
  owi_orderItems :: "OrderItemWithMenu list"

text \<open>The interface \<open>ReceiptData\<close>. \<open>rd_orderTime\<close> holds the creation time-stamp; its
  rendering as a local 12-hour clock string is presentation only. Times are
  milliseconds since the epoch.\<close>

record ReceiptItem =
  ri_name :: string
  ri_quantity :: int
  ri_modifiers :: "string list"
  ri_specialInstructions :: "string option"

record ReceiptData =
  rd_orderNumber :: int
  rd_orderTime :: int
  rd_customerName :: string
  rd_items :: "ReceiptItem list"
  rd_specialInstructions :: "string option"

text \<open>A row of the table \<open>printJob\<close>.\<close>

record PrintJob =
  job_id :: nat
  job_orderId :: nat
  job_printerType :: PrinterType
  job_status :: PrintStatus
  job_receiptData :: ReceiptData
  job_attempts :: int
  job_lastError :: "string option"
  job_sentAt :: "int option"
  job_printedAt :: "int option"
  job_createdAt :: int

text \<open>
  The table is the list of its rows in insertion order together with the next fresh
  primary key. \<open>prisma.printJob.create\<close> appends a row whose unset columns take their
  defaults (no error, no sent or printed time, creation time now).
\<close>

record PrintTable =
  pt_rows :: "PrintJob list"
  pt_nextId :: nat

definition printJob_create ::
  "int \<Rightarrow> nat \<Rightarrow> PrinterType \<Rightarrow> ReceiptData \<Rightarrow> PrintTable \<Rightarrow> PrintJob \<times> PrintTable" where
  "printJob_create now orderId ptype receipt t =
     (let job = \<lparr> job_id = pt_nextId t, job_orderId = orderId, job_printerType = ptype,
                   job_status = PRINT_PENDING, job_receiptData = receipt, job_attempts = 0,
                   job_lastError = None, job_sentAt = None, job_printedAt = None,
                   job_createdAt = now \<rparr>
      in (job, \<lparr> pt_rows = pt_rows t @ [job], pt_nextId = Suc (pt_nextId t) \<rparr>))"

subsection \<open>Receipts\<close>

definition getItemsForPrinter :: "OrderItemWithMenu list \<Rightarrow> PrinterType \<Rightarrow> OrderItemWithMenu list" where
  "getItemsForPrinter items printerType =
     filter (\<lambda>item. let destination = oi_printerDestination item
                     in if destination = ''BOTH'' then True
                        else destination = printerTypeName printerType) items"

text \<open>JavaScript truthiness of a nullable string: null and the empty string are falsy.\<close>

fun truthy :: "string option \<Rightarrow> bool" where
  "truthy None = False"
| "truthy (Some s) = (s \<noteq> [])"

definition orEmpty :: "string option \<Rightarrow> string" where
  "orEmpty s = (if truthy s then the s else [])"

definition orUndefined :: "string option \<Rightarrow> string option" where
  "orUndefined s = (if truthy s then s else None)"

text \<open>\<open>String.prototype.trim\<close> strips white space and line terminators. A string of the
  model is a list of 8-bit characters, read as the code points below 256; of these,
  \<open>trim\<close> strips U+0009 to U+000D, U+0020 and U+00A0. The other characters it strips
  (U+1680, U+2000 to U+200A, U+2028, U+2029, U+202F, U+205F, U+3000, U+FEFF) lie outside
  the character type, so names containing them are outside the model.\<close>

definition isWhiteSpace :: "char \<Rightarrow> bool" where
  "isWhiteSpace c =
     (c \<in> set [CHR '' '', CHR 0x09, CHR 0x0A, CHR 0x0B, CHR 0x0C, CHR 0x0D, CHR 0xA0])"

definition trim :: "string \<Rightarrow> string" where
  "trim s = rev (dropWhile isWhiteSpace (rev (dropWhile isWhiteSpace s)))"

definition customerName :: "OrderUser \<Rightarrow> string" where
  "customerName u =
     (if truthy (u_firstName u) \<or> truthy (u_lastName u)
      then trim (orEmpty (u_firstName u) @ '' '' @ orEmpty (u_lastName u))
      else takeWhile (\<lambda>c. c \<noteq> CHR ''@'') (u_email u))"

definition receiptItem :: "OrderItemWithMenu \<Rightarrow> ReceiptItem" where
  "receiptItem item =
     \<lparr> ri_name = oi_menuItemName item, ri_quantity = oi_quantity item,
       ri_modifiers = oi_selectedModifiers item,
       ri_specialInstructions = orUndefined (oi_specialInstructions item) \<rparr>"

definition generateReceiptData :: "OrderWithItems \<Rightarrow> PrinterType \<Rightarrow> ReceiptData" where
  "generateReceiptData order printerType =
     (let relevantItems = getItemsForPrinter (owi_orderItems order) printerType
      in \<lparr> rd_orderNumber = owi_orderNumber order,
           rd_orderTime = owi_createdAt order,
           rd_customerName = customerName (owi_user order),
           rd_items = map receiptItem relevantItems,
           rd_specialInstructions = owi_specialInstructions order \<rparr>)"

subsection \<open>Creating the jobs of an order\<close>

definition createPrintJobs ::
  "int \<Rightarrow> OrderWithItems \<Rightarrow> PrintTable \<Rightarrow> PrintJob list \<times> PrintTable" where
  "createPrintJobs now order t =
     (let kitchenItems = getItemsForPrinter (owi_orderItems order) KITCHEN;
          beverageItems = getItemsForPrinter (owi_orderItems order) BEVERAGE;
          (jobs1, t1) =
             (if length kitchenItems > 0
              then (let (kitchenJob, t') =
                          printJob_create now (owi_id order) KITCHEN
                            (generateReceiptData order KITCHEN) t
                    in ([kitchenJob], t'))
              else ([], t));
          (jobs2, t2) =
             (if length beverageItems > 0
              then (let (beverageJob, t') =
                          printJob_create now (owi_id order) BEVERAGE
                            (generateReceiptData order BEVERAGE) t1
                    in (jobs1 @ [beverageJob], t'))
              else (jobs1, t1))
      in (jobs2, t2))"

subsection \<open>Job life cycle\<close>

text \<open>
  \<open>prisma.printJob.update\<close> changes the row with the given primary key and throws when
  there is none; the service logs and rethrows.
\<close>

definition printJob_update ::
  "nat \<Rightarrow> (PrintJob \<Rightarrow> PrintJob) \<Rightarrow> PrintTable \<Rightarrow> error + PrintTable" where
  "printJob_update jobId f t =
     (if jobId \<in> job_id ` set (pt_rows t)
      then Inr (t\<lparr> pt_rows := map (\<lambda>j. if job_id j = jobId then f j else j) (pt_rows t) \<rparr>)
      else Inl PrismaRecordNotFound)"

definition markJobSent :: "int \<Rightarrow> nat \<Rightarrow> PrintTable \<Rightarrow> error + PrintTable" where
  "markJobSent now jobId t =
     printJob_update jobId (\<lambda>j. j\<lparr> job_status := SENT, job_sentAt := Some now \<rparr>) t"

definition markJobPrinted :: "int \<Rightarrow> nat \<Rightarrow> PrintTable \<Rightarrow> error + PrintTable" where
  "markJobPrinted now jobId t =
     printJob_update jobId (\<lambda>j. j\<lparr> job_status := PRINTED, job_printedAt := Some now \<rparr>) t"

definition markJobFailed :: "nat \<Rightarrow> string \<Rightarrow> PrintTable \<Rightarrow> error + PrintTable" where
  "markJobFailed jobId errorMessage t =
     printJob_update jobId
       (\<lambda>j. j\<lparr> job_status := FAILED, job_lastError := Some errorMessage,
                job_attempts := job_attempts j + 1 \<rparr>) t"

definition retryable :: "PrintJob \<Rightarrow> bool" where
  "retryable j = (job_status j = FAILED \<and> job_attempts j < 3)"

definition resetJob :: "PrintJob \<Rightarrow> PrintJob" where
  "resetJob j = j\<lparr> job_status := PRINT_PENDING, job_lastError := None \<rparr>"

definition retryFailedJobs :: "PrintTable \<Rightarrow> nat \<times> PrintTable" where
  "retryFailedJobs t =
     (length (filter retryable (pt_rows t)),
      t\<lparr> pt_rows := map (\<lambda>j. if retryable j then resetJob j else j) (pt_rows t) \<rparr>)"

definition retryJob :: "nat \<Rightarrow> PrintTable \<Rightarrow> error + PrintTable" where
  "retryJob jobId t = printJob_update jobId resetJob t"

text \<open>
  \<open>getPendingJobs\<close>: the PENDING rows, oldest first, at most 100 of them (\<open>take: 100\<close>).
  The included order is not modelled: the controller does not read it.
\<close>

definition getPendingJobs :: "PrintTable \<Rightarrow> PrintJob list" where
  "getPendingJobs t =
     take 100 (sort_key job_createdAt (filter (\<lambda>j. job_status j = PRINT_PENDING) (pt_rows t)))"

section \<open>Print controller (src/controllers/print.controller.ts)\<close>

record JobData =
  jd_id :: nat
  jd_printerType :: PrinterType
  jd_receiptData :: ReceiptData
  jd_orderId :: nat
  jd_createdAt :: int

definition jobData :: "PrintJob \<Rightarrow> JobData" where
  "jobData job =
     \<lparr> jd_id = job_id job, jd_printerType = job_printerType job,
       jd_receiptData = job_receiptData job, jd_orderId = job_orderId job,
       jd_createdAt = job_createdAt job \<rparr>"

text \<open>
  The handler of \<open>GET /print/jobs/pending\<close>. \<open>Promise.all\<close> over the \<open>markJobSent\<close>
  calls: every update is issued, and one that fails makes the handler answer 500
  (\<open>Inl\<close>) while the others still take effect. The updates are separate statements
  on distinct rows, run here in the order of the list.
\<close>

fun markAllSent :: "int \<Rightarrow> PrintJob list \<Rightarrow> bool \<Rightarrow> PrintTable \<Rightarrow> bool \<times> PrintTable" where
  "markAllSent now [] ok t = (ok, t)"
| "markAllSent now (job # rest) ok t =
     (case markJobSent now (job_id job) t of
        Inl e \<Rightarrow> markAllSent now rest False t
      | Inr t' \<Rightarrow> markAllSent now rest ok t')"

definition getPendingJobs_ctl :: "int \<Rightarrow> PrintTable \<Rightarrow> (error + JobData list) \<times> PrintTable" where
  "getPendingJobs_ctl now t =
     (let jobs = getPendingJobs t;
          (ok, t') = markAllSent now jobs True t
      in (if ok then Inr (map jobData jobs) else Inl (Failure ''Failed to fetch pending jobs''), t'))"

text \<open>
  Requests run as asynchronous tasks on one thread: a handler runs until its next
  \<open>await\<close>, where another request may run. A pull is therefore a sequence of atomic
  steps, one per database statement: the query, then one update per fetched job, then
  the response. \<open>pull_step\<close> is one such step of one pull, and \<open>run_schedule\<close> runs two
  pulls in the order a schedule gives (0 moves the first pull, anything else the second).
\<close>

datatype pull = Start | Fetched "PrintJob list" "PrintJob list" bool | Responded "error + JobData list"

fun pull_step :: "int \<Rightarrow> pull \<Rightarrow> PrintTable \<Rightarrow> pull \<times> PrintTable" where
  "pull_step now Start t = (Fetched (getPendingJobs t) (getPendingJobs t) True, t)"
| "pull_step now (Fetched jobs [] ok) t =
     (Responded (if ok then Inr (map jobData jobs) else Inl (Failure ''Failed to fetch pending jobs'')), t)"
| "pull_step now (Fetched jobs (job # rest) ok) t =
     (case markJobSent now (job_id job) t of
        Inl e \<Rightarrow> (Fetched jobs rest False, t)
      | Inr t' \<Rightarrow> (Fetched jobs rest ok, t'))"
| "pull_step now (Responded r) t = (Responded r, t)"

fun sched_step :: "int \<Rightarrow> pull \<times> pull \<times> PrintTable \<Rightarrow> nat \<Rightarrow> pull \<times> pull \<times> PrintTable" where
  "sched_step now (a, b, t) i =
     (if i = 0 then (let (a', t') = pull_step now a t in (a', b, t'))
      else (let (b', t') = pull_step now b t in (a, b', t')))"

definition run_schedule :: "int \<Rightarrow> nat list \<Rightarrow> pull \<times> pull \<times> PrintTable \<Rightarrow> pull \<times> pull \<times> PrintTable" where
  "run_schedule now schedule c = foldl (sched_step now) c schedule"

section \<open>Catalogue and cart (order service, validation)\<close>

text \<open>The tables \<open>menuItem\<close>, \<open>modifierGroup\<close> and \<open>modifier\<close>; prices are DECIMAL columns.\<close>

record Modifier =
  mod_id :: nat
  mod_name :: string
  mod_priceAdjustment :: rat
  mod_isAvailable :: bool
  mod_modifierGroupId :: nat

record ModifierGroup =
  grp_id :: nat
  grp_name :: string
  grp_menuItemId :: nat
  grp_isRequired :: bool
  grp_minSelections :: int
  grp_maxSelections :: "int option"

record MenuItem =
  mi_id :: nat
  mi_name :: string
  mi_basePrice :: rat
  mi_isAvailable :: bool
  mi_preparationTime :: int
  mi_printerDestination :: string

record Catalog =
  cat_menuItems :: "MenuItem list"
  cat_modifierGroups :: "ModifierGroup list"
  cat_modifiers :: "Modifier list"

text \<open>The interfaces \<open>OrderItemInput\<close>, \<open>CreateOrderDTO\<close>, \<open>ValidatedOrderItem\<close> and
  \<open>OrderTotals\<close>. An absent \<open>selectedModifiers\<close> is \<open>None\<close>.\<close>

record OrderItemInput =
  in_menuItemId :: nat
  in_quantity :: int
  in_selectedModifiers :: "nat list option"
  in_specialInstructions :: "string option"

record CreateOrderDTO =
  dto_items :: "OrderItemInput list"
  dto_specialInstructions :: "string option"
  dto_paymentMethodId :: string

record ValidatedModifier =
  vm_id :: nat
  vm_name :: string
  vm_priceAdjustment :: number

record ValidatedOrderItem =
  v_menuItemId :: nat
  v_menuItemName :: string
  v_basePrice :: number
  v_preparationTime :: int
  v_printerDestination :: string
  v_quantity :: int
  v_modifiers :: "ValidatedModifier list"
  v_specialInstructions :: "string option"
  v_unitPrice :: number
  v_totalPrice :: number

record OrderTotals =
  subtotal :: number
  taxAmount :: number
  totalAmount :: number

subsection \<open>Calculations\<close>

definition calculateItemPrice :: "number \<Rightarrow> ValidatedModifier list \<Rightarrow> number" where
  "calculateItemPrice basePrice modifiers =
     (let modifierTotal = foldl (\<lambda>sum modifier. fadd sum (vm_priceAdjustment modifier)) 0 modifiers
      in fdiv (Math_round (fmul (fadd basePrice modifierTotal) 100)) 100)"

definition calculateOrderTotals :: "ValidatedOrderItem list \<Rightarrow> OrderTotals" where
  "calculateOrderTotals items =
     (let subtotal' = foldl (\<lambda>sum item. fadd sum (v_totalPrice item)) 0 items;
          taxAmount' = fdiv (Math_round (fmul (fmul subtotal' TAX_RATE) 100)) 100;
          totalAmount' = fadd subtotal' taxAmount'
      in \<lparr> subtotal = fdiv (Math_round (fmul subtotal' 100)) 100,
           taxAmount = taxAmount',
           totalAmount = fdiv (Math_round (fmul totalAmount' 100)) 100 \<rparr>)"

subsection \<open>Validation\<close>

text \<open>\<open>prisma.menuItem.findUnique\<close> with its modifier groups, each with its available
  modifiers (\<open>where: { isAvailable: true }\<close>).\<close>

definition modifierGroupsOf :: "Catalog \<Rightarrow> MenuItem \<Rightarrow> (ModifierGroup \<times> Modifier list) list" where
  "modifierGroupsOf cat menuItem =
     map (\<lambda>g. (g, filter (\<lambda>m. mod_modifierGroupId m = grp_id g \<and> mod_isAvailable m)
                      (cat_modifiers cat)))
         (filter (\<lambda>g. grp_menuItemId g = mi_id menuItem) (cat_modifierGroups cat))"

text \<open>The loop over the selected modifier ids: it throws at the first id that fails.\<close>

fun resolveModifiers ::
  "Catalog \<Rightarrow> MenuItem \<Rightarrow> (ModifierGroup \<times> Modifier list) list \<Rightarrow> nat list
     \<Rightarrow> error + ValidatedModifier list" where
  "resolveModifiers cat menuItem groups [] = Inr []"
| "resolveModifiers cat menuItem groups (modifierId # rest) =
     (case find (\<lambda>m. mod_id m = modifierId) (cat_modifiers cat) of
        None \<Rightarrow> Inl (ModifierNotFound modifierId)
      | Some modifier \<Rightarrow>
          if \<not> mod_isAvailable modifier then Inl (ModifierNotAvailable (mod_name modifier))
          else if \<not> list_ex (\<lambda>grp. grp_id (fst grp) = mod_modifierGroupId modifier) groups
          then Inl (ModifierDoesNotBelong (mod_name modifier) (mi_name menuItem))
          else (case resolveModifiers cat menuItem groups rest of
                  Inl e \<Rightarrow> Inl e
                | Inr ms \<Rightarrow>
                    Inr (\<lparr> vm_id = mod_id modifier, vm_name = mod_name modifier,
                           vm_priceAdjustment = Number (mod_priceAdjustment modifier) \<rparr> # ms)))"

text \<open>The loop over the modifier groups of the menu item.\<close>

definition groupModifiersOf :: "Modifier list \<Rightarrow> ValidatedModifier list \<Rightarrow> ValidatedModifier list" where
  "groupModifiersOf gmods selectedModifiers =
     filter (\<lambda>m. list_ex (\<lambda>gm. mod_id gm = vm_id m) gmods) selectedModifiers"

fun checkGroups :: "(ModifierGroup \<times> Modifier list) list \<Rightarrow> ValidatedModifier list \<Rightarrow> error option" where
  "checkGroups [] selectedModifiers = None"
| "checkGroups ((grp, gmods) # rest) selectedModifiers =
     (let groupModifiers = groupModifiersOf gmods selectedModifiers
      in if grp_isRequired grp \<and> grp_minSelections grp > 0
            \<and> int (length groupModifiers) < grp_minSelections grp
         then Some (RequiresAtLeast (grp_name grp) (grp_minSelections grp))
         else if (case grp_maxSelections grp of
                    None \<Rightarrow> False
                  | Some mx \<Rightarrow> int (length groupModifiers) > mx)
         then Some (AllowsMaximum (grp_name grp) (the (grp_maxSelections grp)))
         else checkGroups rest selectedModifiers)"

text \<open>The body of the loop of \<open>validateOrderItems\<close> for one cart line. Both the
  resolution of the modifiers and the check of the groups sit inside
  \<open>if (item.selectedModifiers && item.selectedModifiers.length > 0)\<close>.\<close>

definition validateOrderItem :: "Catalog \<Rightarrow> OrderItemInput \<Rightarrow> error + ValidatedOrderItem" where
  "validateOrderItem cat item =
     (case find (\<lambda>m. mi_id m = in_menuItemId item) (cat_menuItems cat) of
        None \<Rightarrow> Inl (MenuItemNotFound (in_menuItemId item))
      | Some menuItem \<Rightarrow>
          if \<not> mi_isAvailable menuItem then Inl (MenuItemNotAvailable (mi_name menuItem))
          else
            let groups = modifierGroupsOf cat menuItem;
                selected =
                  (case in_selectedModifiers item of
                     None \<Rightarrow> Inr []
                   | Some ids \<Rightarrow>
                       if length ids > 0
                       then (case resolveModifiers cat menuItem groups ids of
                               Inl e \<Rightarrow> Inl e
                             | Inr ms \<Rightarrow>
                                 (case checkGroups groups ms of
                                    Some e \<Rightarrow> Inl e
                                  | None \<Rightarrow> Inr ms))
                       else Inr [])
            in (case selected of
                  Inl e \<Rightarrow> Inl e
                | Inr selectedModifiers \<Rightarrow>
                    let unitPrice = calculateItemPrice (Number (mi_basePrice menuItem)) selectedModifiers;
                        totalPrice = fmul unitPrice (of_int (in_quantity item))
                    in Inr \<lparr> v_menuItemId = mi_id menuItem, v_menuItemName = mi_name menuItem,
                             v_basePrice = Number (mi_basePrice menuItem),
                             v_preparationTime = mi_preparationTime menuItem,
                             v_printerDestination = mi_printerDestination menuItem,
                             v_quantity = in_quantity item,
                             v_modifiers = selectedModifiers,
                             v_specialInstructions = in_specialInstructions item,
                             v_unitPrice = unitPrice, v_totalPrice = totalPrice \<rparr>))"

fun validateOrderItems :: "Catalog \<Rightarrow> OrderItemInput list \<Rightarrow> error + ValidatedOrderItem list" where
  "validateOrderItems cat [] = Inr []"
| "validateOrderItems cat (item # rest) =
     (case validateOrderItem cat item of
        Inl e \<Rightarrow> Inl e
      | Inr v \<Rightarrow>
          (case validateOrderItems cat rest of
             Inl e \<Rightarrow> Inl e
           | Inr vs \<Rightarrow> Inr (v # vs)))"

section \<open>Orders, the database and the payment gateway\<close>

text \<open>Rows of the tables \<open>order\<close>, \<open>orderItem\<close> and \<open>orderItemModifier\<close>; the items of an
  order are kept with their order, as the nested \<open>create\<close> writes them.\<close>

record SelectedModifier =
  sm_modifierId :: nat
  sm_modifierName :: string
  sm_priceAdjustment :: number

record OrderItem =
  item_id :: nat
  item_menuItemId :: nat
  item_quantity :: int
  item_unitPrice :: number
  item_totalPrice :: number
  item_specialInstructions :: "string option"
  item_selectedModifiers :: "SelectedModifier list"

record Order =
  ord_id :: nat
  ord_orderNumber :: int
  ord_userId :: nat
  ord_status :: OrderStatus
  ord_paymentStatus :: PaymentStatus
  ord_subtotal :: rat
  ord_taxAmount :: rat
  ord_totalAmount :: rat
  ord_stripePaymentIntentId :: "string option"
  ord_specialInstructions :: "string option"
  ord_estimatedReadyTime :: int
  ord_actualReadyTime :: "int option"
  ord_createdAt :: int
  ord_orderItems :: "OrderItem list"

text \<open>
  What the services leave behind, in the order it happens: the calls to the payment
  gateway and the writes to the table \<open>order\<close> (with the status and payment status the
  row has after the write).
\<close>

datatype event =
    StripeIntentCreate number nat nat
  | StripeIntentConfirm string string
  | StripeRefundCreate string "number option" "(int \<times> nat) option"
  | OrderWritten nat OrderStatus PaymentStatus
  | OrderDeleted nat

record World =
  w_orders :: "Order list"
  w_users :: "(nat \<times> OrderUser) list"
  w_nextId :: nat
  w_nextOrderNumber :: int
  w_printJobs :: PrintTable
  w_trace :: "event list"

text \<open>
  The gateway is outside the program: what it answers to each call is a parameter. A
  payment intent answers with its id, a confirmation with the status of the intent, a
  refund with the id of the refund; \<open>Inl\<close> is a call that throws.
\<close>

record Gateway =
  gw_paymentIntents_create :: "number \<Rightarrow> nat \<Rightarrow> nat \<Rightarrow> error + string"
  gw_paymentIntents_confirm :: "string \<Rightarrow> string \<Rightarrow> error + string"
  gw_refunds_create :: "string \<Rightarrow> number option \<Rightarrow> error + string"

definition emit :: "event \<Rightarrow> World \<Rightarrow> World" where
  "emit e w = w\<lparr> w_trace := w_trace w @ [e] \<rparr>"

definition order_find :: "nat \<Rightarrow> World \<Rightarrow> Order option" where
  "order_find orderId w = find (\<lambda>order. ord_id order = orderId) (w_orders w)"

definition order_update :: "nat \<Rightarrow> (Order \<Rightarrow> Order) \<Rightarrow> World \<Rightarrow> (error + Order) \<times> World" where
  "order_update orderId f w =
     (case order_find orderId w of
        None \<Rightarrow> (Inl PrismaRecordNotFound, w)
      | Some order \<Rightarrow>
          (Inr (f order),
           emit (OrderWritten orderId (ord_status (f order)) (ord_paymentStatus (f order)))
             (w\<lparr> w_orders := map (\<lambda>order. if ord_id order = orderId then f order else order)
                                 (w_orders w) \<rparr>)))"

definition order_delete :: "nat \<Rightarrow> World \<Rightarrow> (error + unit) \<times> World" where
  "order_delete orderId w =
     (case order_find orderId w of
        None \<Rightarrow> (Inl PrismaRecordNotFound, w)
      | Some order \<Rightarrow>
          (Inr (),
           emit (OrderDeleted orderId)
             (w\<lparr> w_orders := filter (\<lambda>order. ord_id order \<noteq> orderId) (w_orders w) \<rparr>)))"

text \<open>The nested \<open>prisma.order.create\<close> of the provisional order: one write for the order,
  its items and their modifiers. The user is a foreign key.\<close>

definition orderItemOf :: "nat \<Rightarrow> ValidatedOrderItem \<Rightarrow> OrderItem" where
  "orderItemOf newId item =
     \<lparr> item_id = newId, item_menuItemId = v_menuItemId item, item_quantity = v_quantity item,
       item_unitPrice = v_unitPrice item, item_totalPrice = v_totalPrice item,
       item_specialInstructions = v_specialInstructions item,
       item_selectedModifiers =
         map (\<lambda>modifier. \<lparr> sm_modifierId = vm_id modifier, sm_modifierName = vm_name modifier,
                             sm_priceAdjustment = vm_priceAdjustment modifier \<rparr>)
             (v_modifiers item) \<rparr>"

definition order_create ::
  "int \<Rightarrow> nat \<Rightarrow> OrderTotals \<Rightarrow> string option \<Rightarrow> int \<Rightarrow> ValidatedOrderItem list \<Rightarrow> World
     \<Rightarrow> (error + Order) \<times> World" where
  "order_create now userId totals specialInstructions estimatedReadyTime validatedItems w =
     (case map_of (w_users w) userId of
        None \<Rightarrow> (Inl PrismaForeignKey, w)
      | Some user \<Rightarrow>
          let order =
                \<lparr> ord_id = w_nextId w, ord_orderNumber = w_nextOrderNumber w, ord_userId = userId,
                  ord_status = PENDING, ord_paymentStatus = PAYMENT_PENDING,
                  ord_subtotal = subtotal totals, ord_taxAmount = taxAmount totals,
                  ord_totalAmount = totalAmount totals, ord_stripePaymentIntentId = None,
                  ord_specialInstructions = specialInstructions,
                  ord_estimatedReadyTime = estimatedReadyTime, ord_actualReadyTime = None,
                  ord_createdAt = now,
                  ord_orderItems =
                    map (\<lambda>(k, item). orderItemOf (w_nextId w + 1 + k) item)
                        (zip [0..<length validatedItems] validatedItems) \<rparr>
          in (Inr order,
              emit (OrderWritten (ord_id order) PENDING PAYMENT_PENDING)
                (w\<lparr> w_orders := w_orders w @ [order],
                     w_nextId := w_nextId w + 1 + length validatedItems,
                     w_nextOrderNumber := w_nextOrderNumber w + 1 \<rparr>)))"

text \<open>The \<open>include\<close> of the confirming update: the user, and for each item the name and
  destination of its menu item and the names of its modifiers. Both are foreign keys;
  \<open>None\<close> is a dangling one.\<close>

definition orderItemWithMenu :: "Catalog \<Rightarrow> OrderItem \<Rightarrow> OrderItemWithMenu option" where
  "orderItemWithMenu cat item =
     map_option
       (\<lambda>menuItem. \<lparr> oi_id = item_id item, oi_quantity = item_quantity item,
                       oi_specialInstructions = item_specialInstructions item,
                       oi_menuItemName = mi_name menuItem,
                       oi_printerDestination = mi_printerDestination menuItem,
                       oi_selectedModifiers = map sm_modifierName (item_selectedModifiers item) \<rparr>)
       (find (\<lambda>m. mi_id m = item_menuItemId item) (cat_menuItems cat))"

fun sequence_option :: "'a option list \<Rightarrow> 'a list option" where
  "sequence_option [] = Some []"
| "sequence_option (None # rest) = None"
| "sequence_option (Some x # rest) = map_option ((#) x) (sequence_option rest)"

definition orderWithItems :: "Catalog \<Rightarrow> World \<Rightarrow> Order \<Rightarrow> OrderWithItems option" where
  "orderWithItems cat w order =
     (case map_of (w_users w) (ord_userId order) of
        None \<Rightarrow> None
      | Some user \<Rightarrow>
          map_option
            (\<lambda>orderItems. \<lparr> owi_id = ord_id order, owi_orderNumber = ord_orderNumber order,
                              owi_createdAt = ord_createdAt order,
                              owi_specialInstructions = ord_specialInstructions order,
                              owi_user = user, owi_orderItems = orderItems \<rparr>)
            (sequence_option (map (orderItemWithMenu cat) (ord_orderItems order))))"

subsection \<open>Payment service (src/services/payment.service.ts)\<close>

text \<open>
  \<open>createPaymentIntent\<close> throws when the user is missing. The customer record it looks
  up or creates (\<open>stripe.customers\<close>, the column \<open>stripeCustomerId\<close> of the user) is part
  of what the gateway answers; it touches neither orders nor print jobs.
\<close>

definition createPaymentIntent ::
  "Gateway \<Rightarrow> number \<Rightarrow> nat \<Rightarrow> nat \<Rightarrow> World \<Rightarrow> (error + string) \<times> World" where
  "createPaymentIntent gw amount userId orderId w =
     (case map_of (w_users w) userId of
        None \<Rightarrow> (Inl UserNotFound, w)
      | Some user \<Rightarrow>
          (gw_paymentIntents_create gw amount userId orderId,
           emit (StripeIntentCreate amount userId orderId) w))"

definition confirmPayment ::
  "Gateway \<Rightarrow> string \<Rightarrow> string \<Rightarrow> World \<Rightarrow> (error + string) \<times> World" where
  "confirmPayment gw paymentIntentId paymentMethodId w =
     (gw_paymentIntents_confirm gw paymentIntentId paymentMethodId,
      emit (StripeIntentConfirm paymentIntentId paymentMethodId) w)"

text \<open>\<open>refundPayment\<close>: \<open>if (amount)\<close> and \<open>if (reason)\<close> leave out an amount of 0 and an
  absent reason. The reason is the order number and the admin its text interpolates.\<close>

definition refundPayment ::
  "Gateway \<Rightarrow> string \<Rightarrow> number option \<Rightarrow> (int \<times> nat) option \<Rightarrow> World \<Rightarrow> (error + string) \<times> World" where
  "refundPayment gw paymentIntentId amount reason w =
     (let amount' = (case amount of None \<Rightarrow> None | Some a \<Rightarrow> if a \<noteq> 0 then Some a else None)
      in (gw_refunds_create gw paymentIntentId amount',
          emit (StripeRefundCreate paymentIntentId amount' reason) w))"

section \<open>Order service (creation, status, refund)\<close>

definition generateEstimatedReadyTime :: "int \<Rightarrow> ValidatedOrderItem list \<Rightarrow> World \<Rightarrow> int" where
  "generateEstimatedReadyTime now items w =
     (let preps = map v_preparationTime items;
          totalMinutes =
            BASE_PREP_TIME_MINUTES + (if length items > 0 then foldl max (hd preps) (tl preps) else 0);
          queuedItems =
            int (length (concat (map ord_orderItems
                   (filter (\<lambda>order. ord_status order = CONFIRMED \<or> ord_status order = PREPARING)
                           (w_orders w)))));
          queueDelay = (queuedItems div 5) * TIME_PER_5_ITEMS;
          rounded = - ((- (totalMinutes + queueDelay)) div TIME_ROUNDING) * TIME_ROUNDING
      in now + rounded * 60000)"

text \<open>
  The \<open>catch\<close> block of \<open>createOrder\<close>, with the two variables it reads as they stand
  where the exception was thrown. A failure of the refund or of the delete is logged
  and swallowed; the error that reached the block is thrown again.
\<close>

definition createOrder_catch ::
  "Gateway \<Rightarrow> string option \<Rightarrow> nat option \<Rightarrow> error \<Rightarrow> World \<Rightarrow> (error + OrderWithItems) \<times> World" where
  "createOrder_catch gw paymentIntentId tempOrderId e w =
     (let w1 = (if truthy paymentIntentId
                then snd (refundPayment gw (the paymentIntentId) None None w)
                else w);
          w2 = (if tempOrderId \<noteq> None \<and> \<not> truthy paymentIntentId
                then snd (order_delete (the tempOrderId) w1)
                else w1)
      in (Inl e, w2))"

definition createOrder ::
  "Gateway \<Rightarrow> Catalog \<Rightarrow> int \<Rightarrow> nat \<Rightarrow> CreateOrderDTO \<Rightarrow> World \<Rightarrow> (error + OrderWithItems) \<times> World" where
  "createOrder gw cat now userId data w =
     (case validateOrderItems cat (dto_items data) of
        Inl e \<Rightarrow> createOrder_catch gw None None e w
      | Inr validatedItems \<Rightarrow>
          let totals = calculateOrderTotals validatedItems;
              estimatedReadyTime = generateEstimatedReadyTime now validatedItems w
          in (case order_create now userId totals (dto_specialInstructions data)
                     estimatedReadyTime validatedItems w of
                (Inl e, w1) \<Rightarrow> createOrder_catch gw None None e w1
              | (Inr tempOrder, w1) \<Rightarrow>
                  let tempOrderId = ord_id tempOrder;
                      amountInCents = Math_round (fmul (totalAmount totals) 100)
                  in (case createPaymentIntent gw amountInCents userId tempOrderId w1 of
                        (Inl e, w2) \<Rightarrow> createOrder_catch gw None (Some tempOrderId) e w2
                      | (Inr paymentIntentId, w2) \<Rightarrow>
                          (case confirmPayment gw paymentIntentId (dto_paymentMethodId data) w2 of
                             (Inl e, w3) \<Rightarrow>
                               createOrder_catch gw (Some paymentIntentId) (Some tempOrderId) e w3
                           | (Inr status, w3) \<Rightarrow>
                               if status \<noteq> ''succeeded''
                               then createOrder_catch gw (Some paymentIntentId) (Some tempOrderId)
                                      (PaymentFailed status) w3
                               else
                                 (case order_update tempOrderId
                                         (\<lambda>order. order\<lparr> ord_status := CONFIRMED,
                                                          ord_stripePaymentIntentId := Some paymentIntentId,
                                                          ord_paymentStatus := PAID \<rparr>) w3 of
                                    (Inl e, w4) \<Rightarrow>
                                      createOrder_catch gw (Some paymentIntentId) (Some tempOrderId) e w4
                                  | (Inr updatedOrder, w4) \<Rightarrow>
                                      (case orderWithItems cat w4 updatedOrder of
                                         None \<Rightarrow>
                                           createOrder_catch gw (Some paymentIntentId)
                                             (Some tempOrderId) PrismaForeignKey w4
                                       | Some order \<Rightarrow>
                                           (Inr order,
                                            w4\<lparr> w_printJobs :=
                                                   snd (createPrintJobs now order (w_printJobs w4)) \<rparr>)))))))"

fun VALID_STATUS_TRANSITIONS :: "OrderStatus \<Rightarrow> OrderStatus list" where
  "VALID_STATUS_TRANSITIONS PENDING = [CONFIRMED, CANCELLED]"
| "VALID_STATUS_TRANSITIONS CONFIRMED = [PREPARING, CANCELLED]"
| "VALID_STATUS_TRANSITIONS PREPARING = [READY, CANCELLED]"
| "VALID_STATUS_TRANSITIONS READY = [COMPLETED, CANCELLED]"
| "VALID_STATUS_TRANSITIONS COMPLETED = []"
| "VALID_STATUS_TRANSITIONS CANCELLED = []"

text \<open>\<open>refundOrder\<close>. \<open>amount || Number(order.totalAmount)\<close> takes the total for an absent
  amount and for an amount of 0.\<close>

definition refundOrder ::
  "Gateway \<Rightarrow> nat \<Rightarrow> nat \<Rightarrow> number option \<Rightarrow> World \<Rightarrow> (error + string \<times> Order) \<times> World" where
  "refundOrder gw orderId adminId amount w =
     (case order_find orderId w of
        None \<Rightarrow> (Inl OrderNotFound, w)
      | Some order \<Rightarrow>
          if \<not> truthy (ord_stripePaymentIntentId order) then (Inl NoPaymentToRefund, w)
          else if ord_paymentStatus order = REFUNDED then (Inl OrderAlreadyRefunded, w)
          else
            let refundAmount =
                  (case amount of
                     None \<Rightarrow> Number (ord_totalAmount order)
                   | Some a \<Rightarrow> if a \<noteq> 0 then a else Number (ord_totalAmount order))
            in if refundAmount > Number (ord_totalAmount order) then (Inl RefundExceedsTotal, w)
               else
                 (case refundPayment gw (the (ord_stripePaymentIntentId order))
                         (Some (Math_round (fmul refundAmount 100)))
                         (Some (ord_orderNumber order, adminId)) w of
                    (Inl e, w1) \<Rightarrow> (Inl e, w1)
                  | (Inr refund, w1) \<Rightarrow>
                      (case order_update orderId
                              (\<lambda>order. order\<lparr> ord_paymentStatus := REFUNDED,
                                               ord_status := CANCELLED \<rparr>) w1 of
                         (Inl e, w2) \<Rightarrow> (Inl e, w2)
                       | (Inr updatedOrder, w2) \<Rightarrow> (Inr (refund, updatedOrder), w2))))"

definition persistStatus :: "int \<Rightarrow> nat \<Rightarrow> OrderStatus \<Rightarrow> World \<Rightarrow> (error + Order) \<times> World" where
  "persistStatus now orderId newStatus w =
     order_update orderId
       (\<lambda>order. order\<lparr> ord_status := newStatus,
                        ord_actualReadyTime :=
                          (if newStatus = READY then Some now else ord_actualReadyTime order) \<rparr>) w"

definition updateOrderStatus ::
  "Gateway \<Rightarrow> int \<Rightarrow> nat \<Rightarrow> OrderStatus \<Rightarrow> nat \<Rightarrow> World \<Rightarrow> (error + Order) \<times> World" where
  "updateOrderStatus gw now orderId newStatus adminId w =
     (case order_find orderId w of
        None \<Rightarrow> (Inl OrderNotFound, w)
      | Some order \<Rightarrow>
          let allowedTransitions = VALID_STATUS_TRANSITIONS (ord_status order)
          in if \<not> List.member allowedTransitions newStatus
             then (Inl (InvalidStatusTransition (ord_status order) newStatus), w)
             else if newStatus = CANCELLED \<and> ord_paymentStatus order = PAID
             then (case refundOrder gw orderId adminId None w of
                     (Inl e, w1) \<Rightarrow> (Inl e, w1)
                   | (Inr refunded, w1) \<Rightarrow> persistStatus now orderId newStatus w1)
             else persistStatus now orderId newStatus w)"

section \<open>Example data\<close>

definition ex_receipt :: ReceiptData where
  "ex_receipt = \<lparr> rd_orderNumber = 41, rd_orderTime = 1000, rd_customerName = ''Ada'',
                   rd_items = [], rd_specialInstructions = None \<rparr>"

definition ex_job :: "nat \<Rightarrow> PrintStatus \<Rightarrow> int \<Rightarrow> string option \<Rightarrow> PrintJob" where
  "ex_job i st n err =
     \<lparr> job_id = i, job_orderId = 7, job_printerType = KITCHEN, job_status = st,
       job_receiptData = ex_receipt, job_attempts = n, job_lastError = err,
       job_sentAt = None, job_printedAt = None, job_createdAt = 1000 + int i \<rparr>"

definition ex_table :: PrintTable where
  "ex_table =
     \<lparr> pt_rows = [ex_job 0 FAILED 1 (Some ''paper jam''), ex_job 1 FAILED 3 (Some ''offline''),
                  ex_job 2 SENT 0 None, ex_job 3 PRINTED 1 (Some ''old'')],
       pt_nextId = 4 \<rparr>"

definition ex_table_idle :: PrintTable where
  "ex_table_idle =
     \<lparr> pt_rows = [ex_job 0 PRINT_PENDING 1 None, ex_job 1 FAILED 3 (Some ''offline'')],
       pt_nextId = 2 \<rparr>"

definition ex_user :: OrderUser where
  "ex_user = \<lparr> u_email = ''ada@example.com'', u_firstName = Some ''Ada'', u_lastName = None \<rparr>"

definition ex_item :: "nat \<Rightarrow> string \<Rightarrow> string \<Rightarrow> OrderItemWithMenu" where
  "ex_item i name dest =
     \<lparr> oi_id = i, oi_quantity = 1, oi_specialInstructions = None, oi_menuItemName = name,
       oi_printerDestination = dest, oi_selectedModifiers = [] \<rparr>"

definition ex_order :: "OrderItemWithMenu list \<Rightarrow> OrderWithItems" where
  "ex_order items =
     \<lparr> owi_id = 7, owi_orderNumber = 41, owi_createdAt = 1000, owi_specialInstructions = None,
       owi_user = ex_user, owi_orderItems = items \<rparr>"

text \<open>The routing rule in the words of the specification: an item routes to KITCHEN if its
  destination is KITCHEN or BOTH, and to BEVERAGE if it is BEVERAGE or BOTH.\<close>

definition routesTo :: "PrinterType \<Rightarrow> OrderItemWithMenu \<Rightarrow> bool" where
  "routesTo station item =
     (oi_printerDestination item = printerTypeName station \<or> oi_printerDestination item = ''BOTH'')"

definition ex_pending :: PrintTable where
  "ex_pending = \<lparr> pt_rows = [ex_job 0 PRINT_PENDING 0 None, ex_job 1 SENT 0 None], pt_nextId = 2 \<rparr>"

definition ex_backlog :: PrintTable where
  "ex_backlog = \<lparr> pt_rows = map (\<lambda>i. ex_job i PRINT_PENDING 0 None) [0..<101], pt_nextId = 101 \<rparr>"

text \<open>A row after the pull that fetched the jobs with the ids \<open>S\<close>.\<close>

definition sent :: "int \<Rightarrow> nat set \<Rightarrow> PrintJob \<Rightarrow> PrintJob" where
  "sent now S j = (if job_id j \<in> S then j\<lparr> job_status := SENT, job_sentAt := Some now \<rparr> else j)"


definition ex_gateway :: Gateway where
  "ex_gateway =
     \<lparr> gw_paymentIntents_create = (\<lambda>amount userId orderId. Inr ''pi_1''),
       gw_paymentIntents_confirm = (\<lambda>paymentIntentId paymentMethodId. Inr ''succeeded''),
       gw_refunds_create = (\<lambda>paymentIntentId amount. Inr ''re_1'') \<rparr>"


definition ex_gateway_declined :: Gateway where
  "ex_gateway_declined =
     ex_gateway\<lparr> gw_paymentIntents_confirm := (\<lambda>paymentIntentId paymentMethodId. Inr ''requires_payment_method'') \<rparr>"

definition ex_order_row :: "nat \<Rightarrow> OrderStatus \<Rightarrow> PaymentStatus \<Rightarrow> Order" where
  "ex_order_row i st pay =
     \<lparr> ord_id = i, ord_orderNumber = 41, ord_userId = 1, ord_status = st, ord_paymentStatus = pay,
       ord_subtotal = 1940 / 100, ord_taxAmount = 123 / 100, ord_totalAmount = 2063 / 100,
       ord_stripePaymentIntentId = Some ''pi_7'', ord_specialInstructions = None,
       ord_estimatedReadyTime = 900000, ord_actualReadyTime = None, ord_createdAt = 0,
       ord_orderItems = [] \<rparr>"

definition ex_world :: "Order list \<Rightarrow> World" where
  "ex_world orders =
     \<lparr> w_orders = orders, w_users = [(1, ex_user)], w_nextId = 100, w_nextOrderNumber = 42,
       w_printJobs = \<lparr> pt_rows = [], pt_nextId = 0 \<rparr>, w_trace = [] \<rparr>"

text \<open>The call to the gateway with which \<open>refundOrder\<close> refunds an order in full.\<close>

definition refundCall :: "Order \<Rightarrow> nat \<Rightarrow> event" where
  "refundCall order adminId =
     StripeRefundCreate (the (ord_stripePaymentIntentId order))
       (let cents = Math_round (fmul (Number (ord_totalAmount order)) 100)
        in if cents \<noteq> 0 then Some cents else None)
       (Some (ord_orderNumber order, adminId))"

definition ex_menuItem :: "nat \<Rightarrow> string \<Rightarrow> rat \<Rightarrow> string \<Rightarrow> MenuItem" where
  "ex_menuItem i name price dest =
     \<lparr> mi_id = i, mi_name = name, mi_basePrice = price, mi_isAvailable = True,
       mi_preparationTime = 10, mi_printerDestination = dest \<rparr>"

definition ex_modifier :: "nat \<Rightarrow> string \<Rightarrow> rat \<Rightarrow> nat \<Rightarrow> Modifier" where
  "ex_modifier i name adj g =
     \<lparr> mod_id = i, mod_name = name, mod_priceAdjustment = adj, mod_isAvailable = True,
       mod_modifierGroupId = g \<rparr>"

definition ex_catalog :: Catalog where
  "ex_catalog =
     \<lparr> cat_menuItems =
         [ex_menuItem 1 ''Sandwich'' (895 / 100) ''KITCHEN'',
          ex_menuItem 2 ''Platter'' (1395 / 100) ''KITCHEN'',
          ex_menuItem 3 ''Tea'' (422 / 100) ''BEVERAGE'',
          ex_menuItem 4 ''Steak'' (1783 / 100) ''KITCHEN'',
          ex_menuItem 5 ''Soup'' (795 / 100) ''KITCHEN''],
       cat_modifierGroups =
         [\<lparr> grp_id = 10, grp_name = ''Extras'', grp_menuItemId = 1, grp_isRequired = False,
            grp_minSelections = 0, grp_maxSelections = None \<rparr>,
          \<lparr> grp_id = 20, grp_name = ''Sides'', grp_menuItemId = 2, grp_isRequired = True,
            grp_minSelections = 2, grp_maxSelections = Some 2 \<rparr>],
       cat_modifiers =
         [ex_modifier 101 ''Cheese'' (75 / 100) 10,
          ex_modifier 201 ''Fries'' (75 / 100) 20,
          ex_modifier 202 ''Salad'' 0 20,
          ex_modifier 203 ''Rice'' 0 20] \<rparr>"

definition ex_line :: "nat \<Rightarrow> int \<Rightarrow> nat list option \<Rightarrow> OrderItemInput" where
  "ex_line i q ms =
     \<lparr> in_menuItemId = i, in_quantity = q, in_selectedModifiers = ms,
       in_specialInstructions = None \<rparr>"



text \<open>The pricing of a cart line in the words of the specification, in exact arithmetic
  on rationals: the base price and the adjustments of the selected modifiers are looked up
  in the catalogue, the unit price is their sum rounded to 2 decimals, and the line total
  is the unit price times the quantity.\<close>

definition selectedIds :: "OrderItemInput \<Rightarrow> nat list" where
  "selectedIds item = (case in_selectedModifiers item of None \<Rightarrow> [] | Some ids \<Rightarrow> ids)"

definition cataloguePrices :: "Catalog \<Rightarrow> OrderItemInput \<Rightarrow> (rat \<times> rat list) option" where
  "cataloguePrices cat item =
     (case find (\<lambda>m. mi_id m = in_menuItemId item) (cat_menuItems cat) of
        None \<Rightarrow> None
      | Some menuItem \<Rightarrow>
          map_option (Pair (mi_basePrice menuItem))
            (sequence_option
               (map (\<lambda>k. map_option mod_priceAdjustment
                            (find (\<lambda>m. mod_id m = k) (cat_modifiers cat)))
                    (selectedIds item))))"

text \<open>Rounding to 2 decimals without any floating point (halves upwards, as
  \<open>Math.round\<close>).\<close>

definition exactRound2 :: "rat \<Rightarrow> rat" where
  "exactRound2 x = of_int \<lfloor>x * 100 + 1 / 2\<rfloor> / 100"

text \<open>The range in which the catalogue of a cafe lives: prices and adjustments are whole
  cents (as all prices of prisma/seed.ts are), at most 1000 adjustments of at most
  10,000,000 in total, and a quantity of at most 20 (the bound of \<open>orderItemSchema\<close> in
  src/utils/validators.ts).\<close>

definition wholeCents :: "rat \<Rightarrow> bool" where
  "wholeCents a = (of_int \<lfloor>a * 100\<rfloor> = a * 100)"

definition realisticLine :: "Catalog \<Rightarrow> OrderItemInput \<Rightarrow> bool" where
  "realisticLine cat item =
     (\<bar>in_quantity item\<bar> \<le> 20
      \<and> (case cataloguePrices cat item of
           None \<Rightarrow> True
         | Some (b, adjustments) \<Rightarrow>
             list_all wholeCents (b # adjustments)
           \<and> \<bar>b\<bar> + sum_list (map abs adjustments) \<le> 10000000
           \<and> length adjustments \<le> 1000))"

text \<open>What "priced exactly" can mean for a JavaScript number: the unit price is the number
  nearest to the exact 2-decimal unit price, and the line total lies within 1/8388608
  of the exact product and rounds to it.\<close>

definition pricedExactly :: "Catalog \<Rightarrow> OrderItemInput \<Rightarrow> ValidatedOrderItem \<Rightarrow> bool" where
  "pricedExactly cat item v =
     (case cataloguePrices cat item of
        None \<Rightarrow> False
      | Some (b, adjustments) \<Rightarrow>
          let unitPrice = exactRound2 (b + sum_list adjustments);
              lineTotal = unitPrice * of_int (in_quantity item)
          in v_unitPrice v = Number unitPrice
           \<and> \<bar>v_totalPrice v - lineTotal\<bar> \<le> 1 / 8388608
           \<and> exactRound2 (v_totalPrice v) = lineTotal)"

definition ex_dto :: CreateOrderDTO where
  "ex_dto = \<lparr> dto_items = [ex_line 1 2 (Some [101]), ex_line 3 1 None],
              dto_specialInstructions = None, dto_paymentMethodId = ''pm_card_visa'' \<rparr>"


text \<open>What a run of \<open>createOrder\<close> leaves behind: its result (the id of the returned order,
  or the error), the id, status and payment status of every order, the print jobs and
  the trace.\<close>

definition createOrder_summary ::
  "(error + OrderWithItems) \<times> World
     \<Rightarrow> (error + nat) \<times> (nat \<times> OrderStatus \<times> PaymentStatus) list \<times> PrintJob list \<times> event list" where
  "createOrder_summary rw =
     (map_sum id owi_id (fst rw),
      map (\<lambda>order. (ord_id order, ord_status order, ord_paymentStatus order)) (w_orders (snd rw)),
      pt_rows (w_printJobs (snd rw)),
      w_trace (snd rw))"




section \<open>Properties of the print service\<close>

lemma map_if_not_retryable:
  "\<forall>j \<in> set js. \<not> retryable j \<Longrightarrow> map (\<lambda>j. if retryable j then resetJob j else j) js = js"
  by (induction js) auto

text \<open>
  C9. \<open>retryFailedJobs\<close> resets every job that is FAILED with fewer than 3 attempts to
  PENDING with no stored error, leaves every other job (and every other column) as it
  was, and returns the number of jobs it reset; when no job is FAILED with fewer than 3
  attempts it returns 0 and the table is unchanged.
\<close>

theorem retryFailedJobs_resets:
  "retryFailedJobs t = (n, t') \<Longrightarrow>
     n = card {i. i < length (pt_rows t) \<and> job_status (pt_rows t ! i) = FAILED
                   \<and> job_attempts (pt_rows t ! i) < 3}
   \<and> length (pt_rows t') = length (pt_rows t)
   \<and> pt_nextId t' = pt_nextId t
   \<and> (\<forall>i < length (pt_rows t).
         (job_status (pt_rows t ! i) = FAILED \<and> job_attempts (pt_rows t ! i) < 3 \<longrightarrow>
            pt_rows t' ! i = (pt_rows t ! i)\<lparr> job_status := PRINT_PENDING, job_lastError := None \<rparr>)
       \<and> (\<not> (job_status (pt_rows t ! i) = FAILED \<and> job_attempts (pt_rows t ! i) < 3) \<longrightarrow>
            pt_rows t' ! i = pt_rows t ! i))
   \<and> ((\<forall>j \<in> set (pt_rows t). \<not> (job_status j = FAILED \<and> job_attempts j < 3)) \<longrightarrow>
         n = 0 \<and> t' = t)"
proof -
  assume run: "retryFailedJobs t = (n, t')"
  let ?js = "pt_rows t"
  from run have n: "n = length (filter retryable ?js)"
    and t': "t' = t\<lparr> pt_rows := map (\<lambda>j. if retryable j then resetJob j else j) ?js \<rparr>"
    by (auto simp: retryFailedJobs_def)
  have "length (filter retryable ?js) = card {i. i < length ?js \<and> retryable (?js ! i)}"
    by (rule length_filter_conv_card)
  with n have c1: "n = card {i. i < length ?js \<and> job_status (?js ! i) = FAILED
                        \<and> job_attempts (?js ! i) < 3}"
    by (simp add: retryable_def)
  have c2: "length (pt_rows t') = length ?js" and c3: "pt_nextId t' = pt_nextId t"
    using t' by simp_all
  have c4: "\<forall>i < length ?js.
         (job_status (?js ! i) = FAILED \<and> job_attempts (?js ! i) < 3 \<longrightarrow>
            pt_rows t' ! i = (?js ! i)\<lparr> job_status := PRINT_PENDING, job_lastError := None \<rparr>)
       \<and> (\<not> (job_status (?js ! i) = FAILED \<and> job_attempts (?js ! i) < 3) \<longrightarrow>
            pt_rows t' ! i = ?js ! i)"
    using t' by (simp add: retryable_def resetJob_def)
  have c5: "(\<forall>j \<in> set ?js. \<not> (job_status j = FAILED \<and> job_attempts j < 3)) \<longrightarrow> n = 0 \<and> t' = t"
  proof
    assume none: "\<forall>j \<in> set ?js. \<not> (job_status j = FAILED \<and> job_attempts j < 3)"
    then have nr: "\<forall>j \<in> set ?js. \<not> retryable j"
      by (simp add: retryable_def)
    then have "filter retryable ?js = []"
      by (simp add: filter_empty_conv)
    moreover have "map (\<lambda>j. if retryable j then resetJob j else j) ?js = ?js"
      using nr by (rule map_if_not_retryable)
    ultimately show "n = 0 \<and> t' = t"
      using n t' by simp
  qed
  from c1 c2 c3 c4 c5 show ?thesis by blast
qed

theorem retryFailedJobs_resets_witness:
  "retryFailedJobs ex_table =
     (1, \<lparr> pt_rows = [ex_job 0 PRINT_PENDING 1 None, ex_job 1 FAILED 3 (Some ''offline''),
                       ex_job 2 SENT 0 None, ex_job 3 PRINTED 1 (Some ''old'')],
            pt_nextId = 4 \<rparr>)
   \<and> filter (\<lambda>j. job_status j = FAILED \<and> job_attempts j < 3) (pt_rows ex_table_idle) = []
   \<and> retryFailedJobs ex_table_idle = (0, ex_table_idle)"
  using retryFailedJobs_resets [of ex_table 1 "snd (retryFailedJobs ex_table)"]
        retryFailedJobs_resets [of ex_table_idle 0 ex_table_idle]
  by (simp add: retryFailedJobs_def retryable_def resetJob_def ex_table_def ex_table_idle_def
        ex_job_def)

text \<open>
  C10. For every existing print job, \<open>retryJob\<close> succeeds, sets the status of that job
  to PENDING and clears its stored error whatever its status was, changes no other
  column of it (in particular not the attempts counter), and changes no other job.
\<close>

theorem retryJob_any_status:
  "jobId \<in> job_id ` set (pt_rows t) \<Longrightarrow>
     (\<exists>t'. retryJob jobId t = Inr t'
        \<and> length (pt_rows t') = length (pt_rows t)
        \<and> (\<forall>i < length (pt_rows t).
              (job_id (pt_rows t ! i) = jobId \<longrightarrow>
                 pt_rows t' ! i
                   = (pt_rows t ! i)\<lparr> job_status := PRINT_PENDING, job_lastError := None \<rparr>)
            \<and> (job_id (pt_rows t ! i) \<noteq> jobId \<longrightarrow> pt_rows t' ! i = pt_rows t ! i)
            \<and> job_attempts (pt_rows t' ! i) = job_attempts (pt_rows t ! i)))"
  by (simp add: retryJob_def printJob_update_def resetJob_def)

theorem retryJob_any_status_witness:
  "2 \<in> job_id ` set (pt_rows ex_table) \<and> 3 \<in> job_id ` set (pt_rows ex_table)
   \<and> map_sum id pt_rows (retryJob 2 ex_table)
       = Inr [ex_job 0 FAILED 1 (Some ''paper jam''), ex_job 1 FAILED 3 (Some ''offline''),
              ex_job 2 PRINT_PENDING 0 None, ex_job 3 PRINTED 1 (Some ''old'')]
   \<and> map_sum id pt_rows (retryJob 3 ex_table)
       = Inr [ex_job 0 FAILED 1 (Some ''paper jam''), ex_job 1 FAILED 3 (Some ''offline''),
              ex_job 2 SENT 0 None, ex_job 3 PRINT_PENDING 1 None]"
  using retryJob_any_status [of 2 ex_table] retryJob_any_status [of 3 ex_table]
  by (simp add: retryJob_def printJob_update_def resetJob_def ex_table_def ex_job_def)

lemma getItemsForPrinter_routes:
  "getItemsForPrinter items station = filter (routesTo station) items"
  unfolding getItemsForPrinter_def routesTo_def Let_def
  by (rule filter_cong) auto

lemma createPrintJobs_jobs:
  "createPrintJobs now order t = (jobs, t') \<Longrightarrow>
     jobs = map (\<lambda>(k, station).
                \<lparr> job_id = pt_nextId t + k, job_orderId = owi_id order, job_printerType = station,
                  job_status = PRINT_PENDING, job_receiptData = generateReceiptData order station,
                  job_attempts = 0, job_lastError = None, job_sentAt = None, job_printedAt = None,
                  job_createdAt = now \<rparr>)
              (zip [0..<2] (filter (\<lambda>station. filter (routesTo station) (owi_orderItems order) \<noteq> [])
                        [KITCHEN, BEVERAGE]))
     \<and> pt_rows t' = pt_rows t @ jobs \<and> pt_nextId t' = pt_nextId t + length jobs"
  by (auto simp: createPrintJobs_def getItemsForPrinter_routes printJob_create_def Let_def
        upt_rec split: if_splits prod.splits)


lemma filter_routes_BOTH:
  "list_all (\<lambda>item. oi_printerDestination item = ''BOTH'') items \<Longrightarrow>
     filter (routesTo station) items = items"
  by (induction items) (auto simp: routesTo_def)

text \<open>
  C7. \<open>createPrintJobs\<close> creates exactly one job for each station to which at least one
  item of the order routes, and none for a station to which no item routes; every job
  is PENDING, belongs to the order, has made no attempt, and its receipt lists exactly
  the items routed to its station; the jobs are appended to the table. An order of one
  KITCHEN item and one BEVERAGE item yields two jobs, each with its own item; an order
  whose items all have destination BOTH yields two jobs that list the same items.
\<close>

theorem createPrintJobs_per_station:
  "createPrintJobs now order t = (jobs, t') \<Longrightarrow>
     (\<forall>station. length (filter (\<lambda>j. job_printerType j = station) jobs)
                  = (if list_ex (routesTo station) (owi_orderItems order) then 1 else 0))
   \<and> (\<forall>j \<in> set jobs.
          job_status j = PRINT_PENDING \<and> job_orderId j = owi_id order \<and> job_attempts j = 0
        \<and> rd_items (job_receiptData j)
            = map receiptItem (filter (routesTo (job_printerType j)) (owi_orderItems order)))
   \<and> pt_rows t' = pt_rows t @ jobs
   \<and> (\<forall>k b. owi_orderItems order = [k, b] \<and> oi_printerDestination k = ''KITCHEN''
              \<and> oi_printerDestination b = ''BEVERAGE'' \<longrightarrow>
          map (\<lambda>j. (job_printerType j, rd_items (job_receiptData j))) jobs
            = [(KITCHEN, [receiptItem k]), (BEVERAGE, [receiptItem b])])
   \<and> (owi_orderItems order \<noteq> []
        \<and> list_all (\<lambda>item. oi_printerDestination item = ''BOTH'') (owi_orderItems order) \<longrightarrow>
          map (\<lambda>j. (job_printerType j, rd_items (job_receiptData j))) jobs
            = [(KITCHEN, map receiptItem (owi_orderItems order)),
               (BEVERAGE, map receiptItem (owi_orderItems order))])"
proof -
  assume run: "createPrintJobs now order t = (jobs, t')"
  let ?items = "owi_orderItems order"
  let ?K = "filter (routesTo KITCHEN) ?items" and ?B = "filter (routesTo BEVERAGE) ?items"
  note j = createPrintJobs_jobs [OF run]
  have ex: "list_ex (routesTo station) ?items \<longleftrightarrow> filter (routesTo station) ?items \<noteq> []"
    for station
    by (auto simp: list_ex_iff filter_empty_conv)
  have rd: "rd_items (generateReceiptData order station)
              = map receiptItem (filter (routesTo station) ?items)" for station
    by (simp add: generateReceiptData_def getItemsForPrinter_routes)
  have c1: "\<forall>station. length (filter (\<lambda>j. job_printerType j = station) jobs)
                  = (if list_ex (routesTo station) ?items then 1 else 0)"
  proof
    fix station
    show "length (filter (\<lambda>j. job_printerType j = station) jobs)
                  = (if list_ex (routesTo station) ?items then 1 else 0)"
      using j by (cases station; cases "?K = []"; cases "?B = []") (simp_all add: ex upt_rec)
  qed
  have c2: "\<forall>j \<in> set jobs.
          job_status j = PRINT_PENDING \<and> job_orderId j = owi_id order \<and> job_attempts j = 0
        \<and> rd_items (job_receiptData j)
            = map receiptItem (filter (routesTo (job_printerType j)) ?items)"
    using j by (cases "?K = []"; cases "?B = []") (simp_all add: rd upt_rec)
  have c3: "pt_rows t' = pt_rows t @ jobs"
    using j by simp
  have c4: "\<forall>k b. ?items = [k, b] \<and> oi_printerDestination k = ''KITCHEN''
              \<and> oi_printerDestination b = ''BEVERAGE'' \<longrightarrow>
          map (\<lambda>j. (job_printerType j, rd_items (job_receiptData j))) jobs
            = [(KITCHEN, [receiptItem k]), (BEVERAGE, [receiptItem b])]"
    using j by (auto simp: rd routesTo_def upt_rec)
  have c5: "?items \<noteq> [] \<and> list_all (\<lambda>item. oi_printerDestination item = ''BOTH'') ?items \<longrightarrow>
          map (\<lambda>j. (job_printerType j, rd_items (job_receiptData j))) jobs
            = [(KITCHEN, map receiptItem ?items), (BEVERAGE, map receiptItem ?items)]"
    using j by (auto simp: rd filter_routes_BOTH upt_rec)
  from c1 c2 c3 c4 c5 show ?thesis by blast
qed

theorem createPrintJobs_per_station_witness:
  "map (\<lambda>j. (job_printerType j, map ri_name (rd_items (job_receiptData j))))
       (fst (createPrintJobs 5 (ex_order [ex_item 1 ''Burger'' ''KITCHEN'', ex_item 2 ''Latte'' ''BEVERAGE'']) ex_table))
     = [(KITCHEN, [''Burger'']), (BEVERAGE, [''Latte''])]
   \<and> map (\<lambda>j. (job_printerType j, map ri_name (rd_items (job_receiptData j))))
       (fst (createPrintJobs 5 (ex_order [ex_item 1 ''Combo'' ''BOTH'']) ex_table))
     = [(KITCHEN, [''Combo'']), (BEVERAGE, [''Combo''])]
   \<and> map (\<lambda>j. (job_printerType j, map ri_name (rd_items (job_receiptData j))))
       (fst (createPrintJobs 5 (ex_order [ex_item 1 ''Latte'' ''BEVERAGE'', ex_item 2 ''Tea'' ''BEVERAGE'']) ex_table))
     = [(BEVERAGE, [''Latte'', ''Tea''])]"
  using createPrintJobs_per_station [of 5 "ex_order [ex_item 1 ''Burger'' ''KITCHEN'', ex_item 2 ''Latte'' ''BEVERAGE'']" ex_table
          "fst (createPrintJobs 5 (ex_order [ex_item 1 ''Burger'' ''KITCHEN'', ex_item 2 ''Latte'' ''BEVERAGE'']) ex_table)"
          "snd (createPrintJobs 5 (ex_order [ex_item 1 ''Burger'' ''KITCHEN'', ex_item 2 ''Latte'' ''BEVERAGE'']) ex_table)"]
  by (simp add: createPrintJobs_def getItemsForPrinter_def generateReceiptData_def
        printJob_create_def receiptItem_def ex_order_def ex_item_def Let_def)

lemma job_id_sent [simp]: "job_id (sent now S j) = job_id j"
  by (simp add: sent_def)

lemma sent_sent: "sent now S (sent now {k} j) = sent now (insert k S) j"
  by (simp add: sent_def)

lemma markJobSent_sent:
  "k \<in> job_id ` set (pt_rows t) \<Longrightarrow>
     markJobSent now k t = Inr (t\<lparr> pt_rows := map (sent now {k}) (pt_rows t) \<rparr>)"
  by (simp add: markJobSent_def printJob_update_def sent_def)

lemma markAllSent_sent:
  "job_id ` set jobs \<subseteq> job_id ` set (pt_rows t) \<Longrightarrow>
     markAllSent now jobs ok t
       = (ok, t\<lparr> pt_rows := map (sent now (job_id ` set jobs)) (pt_rows t) \<rparr>)"
proof (induction jobs arbitrary: t)
  case Nil
  then show ?case by (simp add: sent_def)
next
  case (Cons job rest)
  let ?t1 = "t\<lparr> pt_rows := map (sent now {job_id job}) (pt_rows t) \<rparr>"
  have m: "markJobSent now (job_id job) t = Inr ?t1"
    using Cons.prems by (intro markJobSent_sent) auto
  have ids: "job_id ` set (pt_rows ?t1) = job_id ` set (pt_rows t)"
    by (simp add: image_image)
  have "job_id ` set rest \<subseteq> job_id ` set (pt_rows ?t1)"
    unfolding ids using Cons.prems by auto
  then have "markAllSent now rest ok ?t1
          = (ok, ?t1\<lparr> pt_rows := map (sent now (job_id ` set rest)) (pt_rows ?t1) \<rparr>)"
    by (rule Cons.IH)
  then show ?case
    using m by (simp add: sent_sent comp_def)
qed

lemma getPendingJobs_subset:
  "set (getPendingJobs t) \<subseteq> {j \<in> set (pt_rows t). job_status j = PRINT_PENDING}"
proof -
  have "set (getPendingJobs t)
          \<subseteq> set (sort_key job_createdAt (filter (\<lambda>j. job_status j = PRINT_PENDING) (pt_rows t)))"
    unfolding getPendingJobs_def by (rule set_take_subset)
  then show ?thesis by auto
qed

lemma getPendingJobs_ctl_eq:
  "getPendingJobs_ctl now t
     = (Inr (map jobData (getPendingJobs t)),
        t\<lparr> pt_rows := map (sent now (job_id ` set (getPendingJobs t))) (pt_rows t) \<rparr>)"
proof -
  have "job_id ` set (getPendingJobs t) \<subseteq> job_id ` set (pt_rows t)"
    using getPendingJobs_subset [of t] by auto
  then show ?thesis
    by (simp add: getPendingJobs_ctl_def markAllSent_sent Let_def)
qed

lemma pending_after_pull:
  assumes "j \<in> set (getPendingJobs (t\<lparr> pt_rows := map (sent now S) (pt_rows t) \<rparr>))"
  shows "job_id j \<notin> S"
proof -
  from assms getPendingJobs_subset
  have "j \<in> set (map (sent now S) (pt_rows t))" and "job_status j = PRINT_PENDING"
    by fastforce+
  then show ?thesis
    by (auto simp: sent_def split: if_splits)
qed



text \<open>
  C8, as the code has it. The handler answers with the PENDING jobs, oldest first and at
  most 100 of them, and then marks each job it fetched SENT by an update of its own;
  every other row is left as it was. When the handler runs without another request in
  between, every job it returned is SENT afterwards, so the next pull returns none of
  them (until something resets them to PENDING).
\<close>

theorem getPendingJobs_ctl_pull_and_mark:
  "getPendingJobs_ctl now t = (r, t') \<Longrightarrow>
     r = Inr (map jobData
               (take 100 (sort_key job_createdAt
                  (filter (\<lambda>j. job_status j = PRINT_PENDING) (pt_rows t)))))
   \<and> length (pt_rows t') = length (pt_rows t)
   \<and> (\<forall>i < length (pt_rows t).
         pt_rows t' ! i
           = (if job_id (pt_rows t ! i) \<in> job_id ` set (getPendingJobs t)
              then (pt_rows t ! i)\<lparr> job_status := SENT, job_sentAt := Some now \<rparr>
              else pt_rows t ! i))
   \<and> (\<forall>now'. \<exists>js. fst (getPendingJobs_ctl now' t') = Inr js
                  \<and> jd_id ` set js \<inter> job_id ` set (getPendingJobs t) = {})"
proof -
  assume run: "getPendingJobs_ctl now t = (r, t')"
  let ?S = "job_id ` set (getPendingJobs t)"
  from run have r: "r = Inr (map jobData (getPendingJobs t))"
    and t': "t' = t\<lparr> pt_rows := map (sent now ?S) (pt_rows t) \<rparr>"
    by (simp_all add: getPendingJobs_ctl_eq)
  have c1: "r = Inr (map jobData
               (take 100 (sort_key job_createdAt
                  (filter (\<lambda>j. job_status j = PRINT_PENDING) (pt_rows t)))))"
    using r by (simp add: getPendingJobs_def)
  have c2: "length (pt_rows t') = length (pt_rows t)"
    using t' by simp
  have c3: "\<forall>i < length (pt_rows t).
         pt_rows t' ! i
           = (if job_id (pt_rows t ! i) \<in> ?S
              then (pt_rows t ! i)\<lparr> job_status := SENT, job_sentAt := Some now \<rparr>
              else pt_rows t ! i)"
    using t' by (simp add: sent_def)
  have c4: "\<forall>now'. \<exists>js. fst (getPendingJobs_ctl now' t') = Inr js \<and> jd_id ` set js \<inter> ?S = {}"
  proof
    fix now'
    have "job_id j \<notin> ?S" if "j \<in> set (getPendingJobs t')" for j
      using that unfolding t' by (rule pending_after_pull)
    then have "job_id ` set (getPendingJobs t') \<inter> ?S = {}"
      by blast
    then have "jd_id ` set (map jobData (getPendingJobs t')) \<inter> ?S = {}"
      by (simp add: jobData_def image_image)
    then show "\<exists>js. fst (getPendingJobs_ctl now' t') = Inr js \<and> jd_id ` set js \<inter> ?S = {}"
      by (simp add: getPendingJobs_ctl_eq)
  qed
  from c1 c2 c3 c4 show ?thesis by blast
qed

lemma ex_backlog_pull:
  "length (projr (fst (getPendingJobs_ctl 5 ex_backlog))) = 100 \<and>
   length (filter (\<lambda>j. job_status j = PRINT_PENDING) (pt_rows ex_backlog)) = 101"
proof -
  have "filter (\<lambda>j. job_status j = PRINT_PENDING) (pt_rows ex_backlog) = pt_rows ex_backlog"
    by (simp add: ex_backlog_def ex_job_def)
  moreover have "length (pt_rows ex_backlog) = 101"
    by (simp add: ex_backlog_def)
  ultimately show ?thesis
    by (simp add: getPendingJobs_ctl_eq getPendingJobs_def)
qed


lemma run_schedule_Fetched:
  "run_schedule now (replicate (Suc (length rest)) 0) (Fetched jobs rest ok, b, t)
     = (Responded (if fst (markAllSent now rest ok t) then Inr (map jobData jobs)
                   else Inl (Failure ''Failed to fetch pending jobs'')),
        b, snd (markAllSent now rest ok t))"
proof (induction rest arbitrary: ok t)
  case Nil
  then show ?case by (simp add: run_schedule_def)
next
  case (Cons job rest)
  show ?case
  proof (cases "markJobSent now (job_id job) t")
    case (Inl e)
    then show ?thesis
      using Cons.IH [of False t] by (simp add: run_schedule_def)
  next
    case (Inr t1)
    then show ?thesis
      using Cons.IH [of ok t1] by (simp add: run_schedule_def)
  qed
qed

lemma run_schedule_alone:
  "run_schedule now (replicate (length (getPendingJobs t) + 2) 0) (Start, b, t)
     = (Responded (fst (getPendingJobs_ctl now t)), b, snd (getPendingJobs_ctl now t))"
proof -
  let ?jobs = "getPendingJobs t"
  have "run_schedule now (replicate (length ?jobs + 2) 0) (Start, b, t)
          = run_schedule now (replicate (Suc (length ?jobs)) 0) (Fetched ?jobs ?jobs True, b, t)"
    by (simp add: run_schedule_def)
  also have "\<dots> = (Responded (if fst (markAllSent now ?jobs True t) then Inr (map jobData ?jobs)
                               else Inl (Failure ''Failed to fetch pending jobs'')),
                    b, snd (markAllSent now ?jobs True t))"
    by (rule run_schedule_Fetched)
  also have "\<dots> = (Responded (fst (getPendingJobs_ctl now t)), b, snd (getPendingJobs_ctl now t))"
    by (cases "markAllSent now ?jobs True t") (simp add: getPendingJobs_ctl_def Let_def)
  finally show ?thesis .
qed


theorem getPendingJobs_ctl_pull_and_mark_witness:
  "fst (getPendingJobs_ctl 5 ex_pending) = Inr [jobData (ex_job 0 PRINT_PENDING 0 None)]
   \<and> map job_status (pt_rows (snd (getPendingJobs_ctl 5 ex_pending))) = [SENT, SENT]
   \<and> fst (getPendingJobs_ctl 6 (snd (getPendingJobs_ctl 5 ex_pending))) = Inr []"
  using getPendingJobs_ctl_pull_and_mark [of 5 ex_pending "fst (getPendingJobs_ctl 5 ex_pending)"
          "snd (getPendingJobs_ctl 5 ex_pending)"]
  by (simp add: getPendingJobs_ctl_def getPendingJobs_def markJobSent_def printJob_update_def
        ex_pending_def ex_job_def jobData_def)

text \<open>
  Against C8 as stated. Two pulls whose steps interleave (both queries before either
  update) both answer with job 0, which was PENDING when each of them fetched it. And
  with 101 PENDING jobs a pull returns 100 of them, not all.
\<close>

theorem getPendingJobs_ctl_atomic_counterexample:
  "run_schedule 5 [0, 1, 0, 1, 0, 1] (Start, Start, ex_pending)
     = (Responded (Inr [jobData (ex_job 0 PRINT_PENDING 0 None)]),
        Responded (Inr [jobData (ex_job 0 PRINT_PENDING 0 None)]),
        \<lparr> pt_rows = [(ex_job 0 SENT 0 None)\<lparr> job_sentAt := Some 5 \<rparr>, ex_job 1 SENT 0 None],
          pt_nextId = 2 \<rparr>)
   \<and> length (projr (fst (getPendingJobs_ctl 5 ex_backlog))) = 100
   \<and> length (filter (\<lambda>j. job_status j = PRINT_PENDING) (pt_rows ex_backlog)) = 101"
proof -
  have "run_schedule 5 [0, 1, 0, 1, 0, 1] (Start, Start, ex_pending)
     = (Responded (Inr [jobData (ex_job 0 PRINT_PENDING 0 None)]),
        Responded (Inr [jobData (ex_job 0 PRINT_PENDING 0 None)]),
        \<lparr> pt_rows = [(ex_job 0 SENT 0 None)\<lparr> job_sentAt := Some 5 \<rparr>, ex_job 1 SENT 0 None],
          pt_nextId = 2 \<rparr>)"
    by (simp add: run_schedule_def getPendingJobs_def markJobSent_def printJob_update_def
          ex_pending_def ex_job_def jobData_def)
  then show ?thesis
    using ex_backlog_pull by simp
qed

section \<open>Properties of the number model\<close>

lemma pow2_powi: "pow2 k = 2 powi k"
  by (simp add: pow2_def power_int_def field_simps)

lemma pow2_pos [simp]: "0 < pow2 k"
  by (simp add: pow2_powi)

lemma pow2_add: "pow2 (a + b) = pow2 a * pow2 b"
  by (simp add: pow2_powi power_int_add)

lemma pow2_mono: "a \<le> b \<Longrightarrow> pow2 a \<le> pow2 b"
  by (simp add: pow2_powi power_int_increasing)

lemma roundHalfEven_err: "\<bar>of_int (roundHalfEven m) - m\<bar> \<le> 1 / 2"
proof -
  have a: "of_int \<lfloor>m\<rfloor> \<le> m" and b: "m < of_int \<lfloor>m\<rfloor> + 1"
    by linarith+
  consider "m - of_int \<lfloor>m\<rfloor> < 1 / 2" | "1 / 2 < m - of_int \<lfloor>m\<rfloor>"
    | "m - of_int \<lfloor>m\<rfloor> = 1 / 2"
    by linarith
  then show ?thesis
  proof cases
    case 1
    then have "roundHalfEven m = \<lfloor>m\<rfloor>" by (simp add: roundHalfEven_def)
    then show ?thesis using a 1 by simp
  next
    case 2
    then have "roundHalfEven m = \<lfloor>m\<rfloor> + 1" by (simp add: roundHalfEven_def)
    then show ?thesis using b 2 by simp
  next
    case 3
    then have "roundHalfEven m = \<lfloor>m\<rfloor> \<or> roundHalfEven m = \<lfloor>m\<rfloor> + 1"
      by (simp add: roundHalfEven_def Let_def)
    then show ?thesis using 3 by auto
  qed
qed

lemma floorlog2_lower:
  assumes "0 < a"
  shows "pow2 (floorlog2 a) \<le> a"
proof -
  obtain p q where pq: "quotient_of a = (p, q)" by (cases "quotient_of a")
  then have q: "0 < q" and a: "a = of_int p / of_int q"
    using quotient_of_denom_pos quotient_of_div by blast+
  with assms have p: "0 < p"
    by (simp add: zero_less_divide_iff)
  let ?d = "bitlen p - bitlen q"
  show ?thesis
  proof (cases "pow2 ?d \<le> a")
    case True
    then show ?thesis by (simp add: floorlog2_def pq)
  next
    case False
    have bp: "(2::int) ^ nat (bitlen p - 1) \<le> p" using bitlen_bounds [OF p] by simp
    have bq: "q < 2 ^ nat (bitlen q)" using bitlen_bounds [OF q] by simp
    have p1: "1 \<le> bitlen p" and q1: "0 \<le> bitlen q"
      using p by (auto simp: bitlen_alt_def bitlen_nonneg)
    have "pow2 (bitlen p - 1) \<le> of_int p"
    proof -
      have "(of_int ((2::int) ^ nat (bitlen p - 1)) :: rat) \<le> of_int p"
        using bp by (simp only: of_int_le_iff)
      then show ?thesis using p1 by (simp add: pow2_def)
    qed
    moreover have "of_int q \<le> pow2 (bitlen q)"
    proof -
      from bq have "q \<le> 2 ^ nat (bitlen q)" by simp
      then have "(of_int q :: rat) \<le> of_int ((2::int) ^ nat (bitlen q))"
        by (simp only: of_int_le_iff)
      then show ?thesis using q1 by (simp add: pow2_def)
    qed
    moreover have "pow2 (?d - 1) * pow2 (bitlen q) = pow2 (bitlen p - 1)"
      by (simp add: pow2_add [symmetric])
    ultimately have "pow2 (?d - 1) * of_int q \<le> of_int p"
      by (smt (verit) mult_left_mono pow2_pos less_eq_rat_def order_trans)
    then have "pow2 (?d - 1) \<le> a"
      using q by (simp add: a pos_le_divide_eq)
    then show ?thesis using False by (simp add: floorlog2_def pq)
  qed
qed


lemma rnd64_err: "\<bar>rnd64 x - x\<bar> \<le> \<bar>x\<bar> / 2 ^ 53 + pow2 (- 1075)"
proof (cases "x = 0")
  case True
  then show ?thesis by (simp add: rnd64_def less_imp_le)
next
  case False
  define e where "e = floorlog2 \<bar>x\<bar>"
  define q where "q = max (e - 52) (- 1074)"
  define n where "n = roundHalfEven (x / pow2 q)"
  have r: "rnd64 x = of_int n * pow2 q"
    using False by (simp add: rnd64_def e_def q_def n_def Let_def)
  have "rnd64 x - x = (of_int n - x / pow2 q) * pow2 q"
    using pow2_pos [of q] by (simp add: r field_simps less_imp_neq [THEN not_sym])
  then have "\<bar>rnd64 x - x\<bar> = \<bar>of_int n - x / pow2 q\<bar> * pow2 q"
    by (simp add: abs_mult less_imp_le)
  also have "\<dots> \<le> (1 / 2) * pow2 q"
    using roundHalfEven_err [of "x / pow2 q"] by (simp add: n_def mult_right_mono less_imp_le)
  finally have half: "\<bar>rnd64 x - x\<bar> \<le> pow2 q / 2"
    by simp
  have low: "pow2 e \<le> \<bar>x\<bar>"
    unfolding e_def using False by (intro floorlog2_lower) simp
  show ?thesis
  proof (cases "e - 52 \<le> - 1074")
    case True
    then have "q = - 1074" by (simp add: q_def)
    then have "pow2 q / 2 = pow2 (- 1075)"
      using pow2_add [of "- 1075" 1] by (simp add: pow2_def)
    then show ?thesis using half by (simp add: add_increasing)
  next
    case False
    then have "q = e - 52" by (simp add: q_def)
    then have "pow2 q = pow2 e * pow2 (- 52)"
      using pow2_add [of e "- 52"] by simp
    then have "pow2 q / 2 = pow2 e / 2 ^ 53"
      by (simp add: pow2_def)
    also have "\<dots> \<le> \<bar>x\<bar> / 2 ^ 53"
      using low by (simp add: divide_right_mono)
    finally show ?thesis
      using half pow2_pos [of "- 1075"] by linarith
  qed
qed

lemma pow2_tiny: "pow2 (- 1075) \<le> 1 / 2 ^ 60"
  using pow2_mono [of "- 1075" "- 60"] by (simp add: pow2_def)

lemma cents_exact:
  assumes "0 \<le> c" and "c < 2 ^ 50"
  shows "Math_round (fmul (Number (of_int c / 100)) 100) = of_int c"
proof -
  define d where "d = pow2 (- 1075)"
  define x :: rat where "x = of_int c / 100"
  define y where "y = rnd64 x"
  define z where "z = rnd64 (y * 100)"
  have d: "0 < d" "d \<le> 1 / 2 ^ 60"
    using pow2_tiny by (simp_all add: d_def)
  have c: "(0::rat) \<le> of_int c" "(of_int c :: rat) < 2 ^ 50"
    using assms by (simp, metis of_int_less_iff of_int_numeral of_int_power)
  have x: "0 \<le> x" "x * 100 = of_int c"
    using c by (simp_all add: x_def)
  have ey: "\<bar>y - x\<bar> \<le> x / 2 ^ 53 + d"
    using rnd64_err [of x] x by (simp add: y_def d_def)
  have ez: "\<bar>z - y * 100\<bar> \<le> \<bar>y * 100\<bar> / 2 ^ 53 + d"
    using rnd64_err [of "y * 100"] by (simp add: z_def d_def)
  have "\<bar>z - of_int c\<bar> < 1 / 2"
    using ey ez x c d by (simp add: abs_le_iff abs_if split: if_splits)
  then have "\<lfloor>z + 1 / 2\<rfloor> = c"
    by (intro floor_unique) linarith+
  then show ?thesis
    by (simp add: Math_round_def fmul_def Number_def z_def y_def x_def)
qed


section \<open>Properties of the order service\<close>


lemma find_map_update:
  "find (\<lambda>order. ord_id order = k) os = Some order \<Longrightarrow> ord_id (f order) = k \<Longrightarrow>
     find (\<lambda>order. ord_id order = k) (map (\<lambda>order. if ord_id order = k then f order else order) os)
       = Some (f order)"
  by (induction os) (auto split: if_splits)

lemma order_update_found:
  "order_find orderId w = Some order \<Longrightarrow>
     order_update orderId f w
       = (Inr (f order),
          emit (OrderWritten orderId (ord_status (f order)) (ord_paymentStatus (f order)))
            (w\<lparr> w_orders := map (\<lambda>order. if ord_id order = orderId then f order else order)
                                (w_orders w) \<rparr>))"
  by (simp add: order_update_def)

lemma order_find_id: "order_find orderId w = Some order \<Longrightarrow> ord_id order = orderId"
  by (auto simp: order_find_def dest: find_Some_iff [THEN iffD1])

lemma order_find_emit [simp]: "order_find orderId (emit e w) = order_find orderId w"
  by (simp add: order_find_def emit_def)

lemma order_find_after_update:
  "order_find orderId w = Some order \<Longrightarrow> ord_id (f order) = orderId \<Longrightarrow>
     order_find orderId (snd (order_update orderId f w)) = Some (f order)"
  by (simp add: order_update_found) (simp add: order_find_def find_map_update)


lemma emit_fields [simp]:
  "w_orders (emit e w) = w_orders w" "w_users (emit e w) = w_users w"
  "w_printJobs (emit e w) = w_printJobs w" "w_trace (emit e w) = w_trace w @ [e]"
  "w_nextId (emit e w) = w_nextId w" "w_nextOrderNumber (emit e w) = w_nextOrderNumber w"
  by (simp_all add: emit_def)

lemma refundOrder_full:
  assumes "order_find orderId w = Some order"
    and "truthy (ord_stripePaymentIntentId order)"
    and "ord_paymentStatus order \<noteq> REFUNDED"
  shows "refundOrder gw orderId adminId None w =
     (case gw_refunds_create gw (the (ord_stripePaymentIntentId order))
             (let cents = Math_round (fmul (Number (ord_totalAmount order)) 100)
              in if cents \<noteq> 0 then Some cents else None) of
        Inl e \<Rightarrow> (Inl e, emit (refundCall order adminId) w)
      | Inr refund \<Rightarrow>
          (Inr (refund, order\<lparr> ord_paymentStatus := REFUNDED, ord_status := CANCELLED \<rparr>),
           emit (OrderWritten orderId CANCELLED REFUNDED)
             ((emit (refundCall order adminId) w)
                \<lparr> w_orders := map (\<lambda>order. if ord_id order = orderId
                                            then order\<lparr> ord_paymentStatus := REFUNDED,
                                                         ord_status := CANCELLED \<rparr>
                                            else order) (w_orders w) \<rparr>)))"
proof -
  have f: "order_find orderId (emit (refundCall order adminId) w) = Some order"
    using assms(1) by simp
  show ?thesis
    using assms
    by (simp add: refundOrder_def refundPayment_def refundCall_def Let_def
          order_update_found [where order = order] split: sum.splits)
qed



lemma order_find_map:
  "order_find orderId w = Some order \<Longrightarrow> ord_id (f order) = orderId \<Longrightarrow>
     order_find orderId
       (w1\<lparr> w_orders := map (\<lambda>order. if ord_id order = orderId then f order else order)
                            (w_orders w) \<rparr>) = Some (f order)"
  by (simp add: order_find_def find_map_update)

lemma refundOrder_success:
  assumes "order_find orderId w = Some order"
    and "refundOrder gw orderId adminId None w = (Inr x, w1)"
  shows "truthy (ord_stripePaymentIntentId order) \<and> ord_paymentStatus order \<noteq> REFUNDED
       \<and> order_find orderId w1
            = Some (order\<lparr> ord_paymentStatus := REFUNDED, ord_status := CANCELLED \<rparr>)
       \<and> w_trace w1 = w_trace w @ [refundCall order adminId, OrderWritten orderId CANCELLED REFUNDED]"
proof -
  have pre: "truthy (ord_stripePaymentIntentId order)" "ord_paymentStatus order \<noteq> REFUNDED"
    using assms by (auto simp: refundOrder_def split: if_splits)
  have id: "ord_id (order\<lparr> ord_paymentStatus := REFUNDED, ord_status := CANCELLED \<rparr>) = orderId"
    using assms(1) by (simp add: order_find_id)
  note fnd = order_find_map [OF assms(1), where f = "\<lambda>order. order\<lparr> ord_paymentStatus := REFUNDED, ord_status := CANCELLED \<rparr>", OF id]
  show ?thesis
    using assms(2) pre fnd
    by (auto simp: refundOrder_full [OF assms(1) pre] split: sum.splits)
qed

lemma persistStatus_found:
  assumes "order_find orderId w = Some order"
  shows "\<exists>o'. fst (persistStatus now orderId newStatus w) = Inr o' \<and> ord_status o' = newStatus
            \<and> ord_paymentStatus o' = ord_paymentStatus order
            \<and> order_find orderId (snd (persistStatus now orderId newStatus w)) = Some o'
            \<and> w_trace (snd (persistStatus now orderId newStatus w))
                = w_trace w @ [OrderWritten orderId newStatus (ord_paymentStatus order)]"
proof -
  let ?f = "\<lambda>order. order\<lparr> ord_status := newStatus,
                        ord_actualReadyTime :=
                          (if newStatus = READY then Some now else ord_actualReadyTime order) \<rparr>"
  have id: "ord_id (?f order) = orderId"
    using assms by (simp add: order_find_id)
  have "order_find orderId (snd (order_update orderId ?f w)) = Some (?f order)"
    using assms id by (rule order_find_after_update)
  then show ?thesis
    using assms by (simp add: persistStatus_def order_update_found)
qed


lemma ex_find: "order_find 7 (ex_world [ex_order_row 7 st pay]) = Some (ex_order_row 7 st pay)"
  by (simp add: order_find_def ex_world_def ex_order_row_def)




text \<open>
  C4, as the code has it. When an admin cancels an order that is PAID, has a payment
  intent and is in a status from which CANCELLED is allowed (PENDING, CONFIRMED,
  PREPARING, READY), exactly one refund call goes to the gateway, before any write of
  the status CANCELLED, for the order's total in cents (for a total of \<open>c\<close> cents,
  \<open>0 < c < 2^50\<close>, the amount \<open>c\<close>; a total of 0 sends no amount, which the gateway
  reads as a full refund). When the call succeeds the order is written as CANCELLED and
  REFUNDED (by \<open>refundOrder\<close>, then once more by \<open>updateOrderStatus\<close>) and ends so;
  when it fails its error is thrown and no order is written.
\<close>

theorem updateOrderStatus_cancel_paid:
  assumes "order_find orderId w = Some order"
    and "ord_paymentStatus order = PAID"
    and "ord_status order \<in> {PENDING, CONFIRMED, PREPARING, READY}"
    and "truthy (ord_stripePaymentIntentId order)"
    and "updateOrderStatus gw now orderId CANCELLED adminId w = (r, w')"
  shows "let cents = Math_round (fmul (Number (ord_totalAmount order)) 100);
             amount = (if cents \<noteq> 0 then Some cents else None);
             call = StripeRefundCreate (the (ord_stripePaymentIntentId order)) amount
                      (Some (ord_orderNumber order, adminId))
         in (\<forall>c. 0 \<le> c \<and> c < 2 ^ 50 \<and> ord_totalAmount order = of_int c / 100 \<longrightarrow>
                  cents = of_int c)
          \<and> (case gw_refunds_create gw (the (ord_stripePaymentIntentId order)) amount of
                Inl e \<Rightarrow> r = Inl e \<and> w_trace w' = w_trace w @ [call] \<and> w_orders w' = w_orders w
              | Inr refund \<Rightarrow>
                  w_trace w' = w_trace w @ [call, OrderWritten orderId CANCELLED REFUNDED,
                                            OrderWritten orderId CANCELLED REFUNDED]
                  \<and> (\<exists>o'. r = Inr o' \<and> ord_status o' = CANCELLED
                          \<and> ord_paymentStatus o' = REFUNDED \<and> order_find orderId w' = Some o'))"
proof -
  define cents where "cents = Math_round (fmul (Number (ord_totalAmount order)) 100)"
  define amount where "amount = (if cents \<noteq> 0 then Some cents else None)"
  define call where "call = StripeRefundCreate (the (ord_stripePaymentIntentId order)) amount
                      (Some (ord_orderNumber order, adminId))"
  have call: "refundCall order adminId = call"
    by (simp add: refundCall_def call_def amount_def cents_def Let_def)
  have listed: "CANCELLED \<in> set (VALID_STATUS_TRANSITIONS (ord_status order))"
    using assms(3) by auto
  have notref: "ord_paymentStatus order \<noteq> REFUNDED"
    using assms(2) by simp
  have run: "(r, w') = (case refundOrder gw orderId adminId None w of
                     (Inl e, w1) \<Rightarrow> (Inl e, w1)
                   | (Inr refunded, w1) \<Rightarrow> persistStatus now orderId CANCELLED w1)"
    using assms(1,2,5) listed by (simp add: updateOrderStatus_def)
  have full: "refundOrder gw orderId adminId None w =
     (case gw_refunds_create gw (the (ord_stripePaymentIntentId order)) amount of
        Inl e \<Rightarrow> (Inl e, emit call w)
      | Inr refund \<Rightarrow>
          (Inr (refund, order\<lparr> ord_paymentStatus := REFUNDED, ord_status := CANCELLED \<rparr>),
           emit (OrderWritten orderId CANCELLED REFUNDED)
             ((emit call w)
                \<lparr> w_orders := map (\<lambda>order. if ord_id order = orderId
                                            then order\<lparr> ord_paymentStatus := REFUNDED,
                                                         ord_status := CANCELLED \<rparr>
                                            else order) (w_orders w) \<rparr>)))"
    using refundOrder_full [OF assms(1,4) notref, of gw adminId]
    unfolding call amount_def cents_def Let_def .
  have c1: "\<forall>c. 0 \<le> c \<and> c < 2 ^ 50 \<and> ord_totalAmount order = of_int c / 100 \<longrightarrow> cents = of_int c"
  proof (intro allI impI)
    fix c :: int
    assume a: "0 \<le> c \<and> c < 2 ^ 50 \<and> ord_totalAmount order = of_int c / 100"
    then have tot: "ord_totalAmount order = of_int c / 100" by blast
    show "cents = of_int c"
      unfolding cents_def tot by (rule cents_exact) (use a in blast)+
  qed
  have c2: "(case gw_refunds_create gw (the (ord_stripePaymentIntentId order)) amount of
                Inl e \<Rightarrow> r = Inl e \<and> w_trace w' = w_trace w @ [call] \<and> w_orders w' = w_orders w
              | Inr refund \<Rightarrow>
                  w_trace w' = w_trace w @ [call, OrderWritten orderId CANCELLED REFUNDED,
                                            OrderWritten orderId CANCELLED REFUNDED]
                  \<and> (\<exists>o'. r = Inr o' \<and> ord_status o' = CANCELLED
                          \<and> ord_paymentStatus o' = REFUNDED \<and> order_find orderId w' = Some o'))"
  proof (cases "gw_refunds_create gw (the (ord_stripePaymentIntentId order)) amount")
    case (Inl e)
    then have "refundOrder gw orderId adminId None w = (Inl e, emit call w)"
      using full by simp
    then show ?thesis
      using run Inl by simp
  next
    case (Inr refund)
    obtain x w1 where ref: "refundOrder gw orderId adminId None w = (Inr x, w1)"
      using full Inr by simp
    from refundOrder_success [OF assms(1) ref]
    have f1: "order_find orderId w1
               = Some (order\<lparr> ord_paymentStatus := REFUNDED, ord_status := CANCELLED \<rparr>)"
      and t1: "w_trace w1 = w_trace w @ [call, OrderWritten orderId CANCELLED REFUNDED]"
      by (simp_all add: call)
    from persistStatus_found [OF f1, of now CANCELLED]
    obtain o' where "fst (persistStatus now orderId CANCELLED w1) = Inr o'"
      and "ord_status o' = CANCELLED" and "ord_paymentStatus o' = REFUNDED"
      and "order_find orderId (snd (persistStatus now orderId CANCELLED w1)) = Some o'"
      and "w_trace (snd (persistStatus now orderId CANCELLED w1))
             = w_trace w1 @ [OrderWritten orderId CANCELLED REFUNDED]"
      by auto
    moreover from run ref have "r = fst (persistStatus now orderId CANCELLED w1)"
      and "w' = snd (persistStatus now orderId CANCELLED w1)"
      by (simp_all add: prod_eq_iff)
    ultimately show ?thesis
      using Inr t1 by simp
  qed
  from c1 c2 show ?thesis
    unfolding Let_def cents_def [symmetric] amount_def [symmetric] call_def [symmetric] by blast
qed


lemma ex_cents: "Math_round (fmul (Number (2063 / 100)) 100) = 2063"
  using cents_exact [of 2063] by simp

theorem updateOrderStatus_cancel_paid_witness:
  "order_find 7 (ex_world [ex_order_row 7 CONFIRMED PAID]) = Some (ex_order_row 7 CONFIRMED PAID)
   \<and> ord_totalAmount (ex_order_row 7 CONFIRMED PAID) = 2063 / 100
   \<and> updateOrderStatus ex_gateway 5 7 CANCELLED 9 (ex_world [ex_order_row 7 CONFIRMED PAID])
       = (Inr (ex_order_row 7 CANCELLED REFUNDED),
          (ex_world [ex_order_row 7 CANCELLED REFUNDED])
            \<lparr> w_trace := [StripeRefundCreate ''pi_7'' (Some 2063) (Some (41, 9)),
                           OrderWritten 7 CANCELLED REFUNDED,
                           OrderWritten 7 CANCELLED REFUNDED] \<rparr>)"
  using updateOrderStatus_cancel_paid [where orderId = 7 and order = "ex_order_row 7 CONFIRMED PAID"
          and w = "ex_world [ex_order_row 7 CONFIRMED PAID]" and gw = ex_gateway and now = 5
          and adminId = 9
          and r = "fst (updateOrderStatus ex_gateway 5 7 CANCELLED 9 (ex_world [ex_order_row 7 CONFIRMED PAID]))"
          and w' = "snd (updateOrderStatus ex_gateway 5 7 CANCELLED 9 (ex_world [ex_order_row 7 CONFIRMED PAID]))"]
  by (simp add: updateOrderStatus_def refundOrder_def refundPayment_def persistStatus_def
        order_update_def order_find_def emit_def ex_gateway_def ex_world_def ex_order_row_def
        ex_cents Let_def)

text \<open>
  Against C4 as stated: for a PAID order that is COMPLETED the call is rejected as an
  invalid transition and no refund call is made.
\<close>

theorem updateOrderStatus_cancel_paid_counterexample:
  "updateOrderStatus ex_gateway 5 7 CANCELLED 9 (ex_world [ex_order_row 7 COMPLETED PAID])
     = (Inl (InvalidStatusTransition COMPLETED CANCELLED), ex_world [ex_order_row 7 COMPLETED PAID])
   \<and> ord_paymentStatus (ex_order_row 7 COMPLETED PAID) = PAID
   \<and> w_trace (ex_world [ex_order_row 7 COMPLETED PAID]) = []"
  by (simp add: updateOrderStatus_def order_find_def ex_world_def ex_order_row_def)



text \<open>When a line selects at least one modifier, every modifier group of its menu item is
  checked, also a group from which the line selects nothing.\<close>

lemma checkGroups_None:
  "checkGroups groups ms = None \<Longrightarrow> (grp, gmods) \<in> set groups \<Longrightarrow>
     (grp_isRequired grp \<and> grp_minSelections grp > 0 \<longrightarrow>
        grp_minSelections grp \<le> int (length (groupModifiersOf gmods ms)))
   \<and> (\<forall>mx. grp_maxSelections grp = Some mx \<longrightarrow> int (length (groupModifiersOf gmods ms)) \<le> mx)"
  by (induction groups ms rule: checkGroups.induct)
     (auto simp: Let_def split: if_splits option.splits)

lemma validateOrderItem_groups_checked:
  assumes "validateOrderItem cat item = Inr v"
    and "in_selectedModifiers item = Some ids" and "ids \<noteq> []"
    and "find (\<lambda>m. mi_id m = in_menuItemId item) (cat_menuItems cat) = Some menuItem"
    and "(grp, gmods) \<in> set (modifierGroupsOf cat menuItem)"
  shows "(grp_isRequired grp \<and> grp_minSelections grp > 0 \<longrightarrow>
            grp_minSelections grp \<le> int (length (groupModifiersOf gmods (v_modifiers v))))
       \<and> (\<forall>mx. grp_maxSelections grp = Some mx \<longrightarrow>
            int (length (groupModifiersOf gmods (v_modifiers v))) \<le> mx)"
proof -
  from assms(1-4) have "checkGroups (modifierGroupsOf cat menuItem) (v_modifiers v) = None"
    by (auto simp: validateOrderItem_def Let_def split: if_splits sum.splits option.splits)
  then show ?thesis
    using assms(5) by (rule checkGroups_None)
qed

text \<open>Error bounds for sums and products of prices.\<close>

lemma fadd_near:
  assumes xa: "\<bar>x - a\<bar> \<le> F" and sp: "\<bar>s - p\<bar> \<le> E"
    and E: "E \<le> 1" and F: "F \<le> 1" and b: "\<bar>p + a\<bar> \<le> 10000000"
  shows "\<bar>fadd s x - (p + a)\<bar> \<le> E + F + 1 / 536870912"
proof -
  define d where "d = pow2 (- 1075)"
  define y where "y = s + x"
  define m where "m = \<bar>y\<bar>"
  have d: "0 < d" "d \<le> 1 / 1152921504606846976"
    using pow2_tiny by (simp_all add: d_def)
  have s1: "s - p \<le> E" "- (s - p) \<le> E"
    using abs_le_D1 [OF sp] abs_le_D2 [OF sp] by simp_all
  have x1: "x - a \<le> F" "- (x - a) \<le> F"
    using abs_le_D1 [OF xa] abs_le_D2 [OF xa] by simp_all
  have b1: "p + a \<le> 10000000" "- (p + a) \<le> 10000000"
    using abs_le_D1 [OF b] abs_le_D2 [OF b] by simp_all
  have m: "m \<le> 10000002"
    unfolding m_def y_def by (rule abs_leI) (use s1 x1 b1 E F in linarith)+
  have "\<bar>rnd64 y - y\<bar> \<le> m / 9007199254740992 + d"
    using rnd64_err [of y] by (simp add: d_def m_def)
  then have r1: "rnd64 y - y \<le> m / 9007199254740992 + d"
    "- (rnd64 y - y) \<le> m / 9007199254740992 + d"
    by (simp_all add: abs_le_iff)
  have "\<bar>rnd64 y - (p + a)\<bar> \<le> E + F + 1 / 536870912"
    by (rule abs_leI) (use r1 m s1 x1 d in \<open>unfold y_def, linarith\<close>)+
  then show ?thesis
    by (simp add: fadd_def y_def)
qed

lemma Number_near:
  assumes "\<bar>a\<bar> \<le> 10000000"
  shows "\<bar>Number a - a\<bar> \<le> 1 / 536870912"
proof -
  define d where "d = pow2 (- 1075)"
  define m where "m = \<bar>a\<bar>"
  have d: "0 < d" "d \<le> 1 / 1152921504606846976"
    using pow2_tiny by (simp_all add: d_def)
  have m: "m \<le> 10000000"
    using assms by (simp add: m_def)
  have "\<bar>rnd64 a - a\<bar> \<le> m / 9007199254740992 + d"
    using rnd64_err [of a] by (simp add: d_def m_def)
  then show ?thesis
    unfolding Number_def using m d by linarith
qed


lemma sum_abs_nonneg: "(0::rat) \<le> sum_list (map abs as)"
  by (induction as) auto

lemma foldl_fadd_near:
  assumes "list_all2 (\<lambda>x a. \<bar>x - a\<bar> \<le> 1 / 134217728) xs as"
    and "\<bar>s - p\<bar> \<le> E"
    and "E + of_nat (length xs) / 67108864 \<le> 1"
    and "\<bar>p\<bar> + sum_list (map abs as) \<le> 10000000"
  shows "\<bar>foldl fadd s xs - (p + sum_list as)\<bar> \<le> E + of_nat (length xs) / 67108864"
  using assms
proof (induction xs as arbitrary: s p E rule: list_all2_induct)
  case Nil
  then show ?case by simp
next
  case (Cons x xs a as)
  define N :: rat where "N = of_nat (length xs)"
  have n0: "0 \<le> N"
    by (simp add: N_def)
  have sa: "(0::rat) \<le> sum_list (map abs as)"
    by (rule sum_abs_nonneg)
  have len: "(of_nat (length (x # xs)) :: rat) = 1 + N"
    by (simp add: N_def)
  have p2: "E + (1 / 67108864 + N / 67108864) \<le> 1"
    using Cons.prems(2) unfolding len add_divide_distrib .
  have E1: "E \<le> 1"
    using p2 n0 by linarith
  have pa: "\<bar>p + a\<bar> \<le> 10000000"
    using Cons.prems(3) sa by simp
  have step: "\<bar>fadd s x - (p + a)\<bar> \<le> E + 1 / 134217728 + 1 / 536870912"
    using Cons.hyps(1) Cons.prems(1) E1 _ pa by (rule fadd_near) simp
  then have step': "\<bar>fadd s x - (p + a)\<bar> \<le> E + 1 / 67108864"
    by linarith
  have "\<bar>foldl fadd (fadd s x) xs - ((p + a) + sum_list as)\<bar>
          \<le> (E + 1 / 67108864) + of_nat (length xs) / 67108864"
  proof (rule Cons.IH [OF step'])
    show "E + 1 / 67108864 + of_nat (length xs) / 67108864 \<le> 1"
      unfolding N_def [symmetric] using p2 by linarith
    show "\<bar>p + a\<bar> + sum_list (map abs as) \<le> 10000000"
      using Cons.prems(3) by simp
  qed
  then have "\<bar>foldl fadd (fadd s x) xs - ((p + a) + sum_list as)\<bar>
               \<le> E + (1 / 67108864 + N / 67108864)"
    unfolding N_def [symmetric] by linarith
  then show ?case
    unfolding len add_divide_distrib by (simp add: add.assoc)
qed


lemma abs_le_sum_abs: "a \<in> set as \<Longrightarrow> \<bar>a\<bar> \<le> sum_list (map abs (as :: rat list))"
proof (induction as)
  case Nil
  then show ?case by simp
next
  case (Cons x as)
  have "(0::rat) \<le> sum_list (map abs as)"
    by (rule sum_abs_nonneg)
  with Cons show ?case by auto
qed

lemma round_cents:
  assumes t: "\<bar>t - of_int C / 100\<bar> \<le> 1 / 1024"
    and C: "\<bar>of_int C / 100 :: rat\<bar> \<le> 1000000000"
  shows "fdiv (Math_round (fmul t 100)) 100 = Number (of_int C / 100)"
proof -
  define d where "d = pow2 (- 1075)"
  define c :: rat where "c = of_int C / 100"
  define y where "y = t * 100"
  define m where "m = \<bar>y\<bar>"
  have d: "0 < d" "d \<le> 1 / 1152921504606846976"
    using pow2_tiny by (simp_all add: d_def)
  have t1: "t - c \<le> 1 / 1024" "- (t - c) \<le> 1 / 1024"
    using abs_le_D1 [OF t] abs_le_D2 [OF t] by (simp_all add: c_def)
  have c1: "c \<le> 1000000000" "- c \<le> 1000000000"
    using abs_le_D1 [OF C] abs_le_D2 [OF C] by (simp_all add: c_def)
  have m: "m \<le> 100000000001"
    unfolding m_def y_def by (rule abs_leI) (use t1 c1 in linarith)+
  have "\<bar>rnd64 y - y\<bar> \<le> m / 9007199254740992 + d"
    using rnd64_err [of y] by (simp add: d_def m_def)
  then have r1: "rnd64 y - y \<le> m / 9007199254740992 + d"
    "- (rnd64 y - y) \<le> m / 9007199254740992 + d"
    by (simp_all add: abs_le_iff)
  have cC: "c * 100 = of_int C"
    by (simp add: c_def)
  have lo: "of_int C \<le> rnd64 y + 1 / 2"
    using r1 m t1 d cC unfolding y_def by linarith
  have hi: "rnd64 y + 1 / 2 < of_int C + 1"
    using r1 m t1 d cC unfolding y_def by linarith
  have "\<lfloor>rnd64 y + 1 / 2\<rfloor> = C"
    using lo hi by (rule floor_unique)
  then show ?thesis
    by (simp add: Math_round_def fmul_def fdiv_def Number_def y_def)
qed

lemma calculateItemPrice_exact:
  assumes cents: "b + sum_list as = of_int C / 100"
    and bound: "\<bar>b\<bar> + sum_list (map abs as) \<le> 10000000"
    and n: "length as \<le> 1000"
    and ms: "map vm_priceAdjustment ms = map Number as"
  shows "calculateItemPrice (Number b) ms = Number (of_int C / 100)"
proof -
  define N :: rat where "N = of_nat (length as)"
  have N: "0 \<le> N" "N \<le> 1000"
    using n by (simp_all add: N_def)
  have sa: "0 \<le> sum_list (map abs as)"
    by (rule sum_abs_nonneg)
  have b0: "\<bar>b\<bar> \<le> 10000000"
    using bound sa by linarith
  have near: "list_all2 (\<lambda>x a. \<bar>x - a\<bar> \<le> 1 / 134217728) (map Number as) as"
  proof -
    have "\<bar>Number a - a\<bar> \<le> 1 / 134217728" if "a \<in> set as" for a
    proof -
      have "\<bar>a\<bar> \<le> 10000000"
        using abs_le_sum_abs [OF that] bound abs_ge_zero [of b] by linarith
      from Number_near [OF this] show ?thesis by linarith
    qed
    then show ?thesis
      by (simp add: list_all2_conv_all_nth)
  qed
  have fold: "foldl (\<lambda>sum modifier. fadd sum (vm_priceAdjustment modifier)) 0 ms
                = foldl fadd 0 (map Number as)"
    using ms by (simp add: foldl_map [symmetric])
  have "\<bar>foldl fadd 0 (map Number as) - (0 + sum_list as)\<bar>
          \<le> 0 + of_nat (length (map Number as)) / 67108864"
  proof (rule foldl_fadd_near [OF near])
    show "\<bar>0 - 0 :: rat\<bar> \<le> 0" by simp
    show "0 + of_nat (length (map Number as)) / 67108864 \<le> (1::rat)"
      using N by (simp add: N_def [symmetric])
    show "\<bar>0\<bar> + sum_list (map abs as) \<le> 10000000"
      using bound abs_ge_zero [of b] by linarith
  qed
  then have mt: "\<bar>foldl fadd 0 (map Number as) - sum_list as\<bar> \<le> N / 67108864"
    by (simp add: N_def)
  have mt': "\<bar>foldl fadd 0 (map Number as) - sum_list as\<bar> \<le> 1 / 2048"
    using mt N by linarith
  have pa: "\<bar>b + sum_list as\<bar> \<le> 10000000"
    using sum_list_abs [of as] bound by linarith
  have "\<bar>fadd (Number b) (foldl fadd 0 (map Number as)) - (b + sum_list as)\<bar>
          \<le> 1 / 536870912 + 1 / 2048 + 1 / 536870912"
    using mt' Number_near [OF b0] _ _ pa by (rule fadd_near) simp_all
  then have t: "\<bar>fadd (Number b) (foldl fadd 0 (map Number as)) - of_int C / 100\<bar> \<le> 1 / 1024"
    unfolding cents by linarith
  have C: "\<bar>of_int C / 100 :: rat\<bar> \<le> 1000000000"
    using pa unfolding cents by linarith
  show ?thesis
    unfolding calculateItemPrice_def Let_def fold
    using t C by (rule round_cents)
qed


lemma lineTotal_near:
  fixes q :: int
  assumes e: "\<bar>e\<bar> \<le> 10000000" and q: "\<bar>q\<bar> \<le> 20"
  shows "\<bar>fmul (Number e) (of_int q) - e * of_int q\<bar> \<le> 1 / 8388608"
proof -
  define d where "d = pow2 (- 1075)"
  define Q :: rat where "Q = of_int q"
  define u where "u = Number e"
  define y where "y = u * Q"
  define m where "m = \<bar>y\<bar>"
  have d: "0 < d" "d \<le> 1 / 1152921504606846976"
    using pow2_tiny by (simp_all add: d_def)
  have Q: "\<bar>Q\<bar> \<le> 20"
    using q unfolding Q_def by (metis of_int_abs of_int_le_iff of_int_numeral)
  have ue: "\<bar>u - e\<bar> \<le> 1 / 536870912"
    unfolding u_def using e by (rule Number_near)
  have "\<bar>y - e * Q\<bar> = \<bar>u - e\<bar> * \<bar>Q\<bar>"
    by (simp add: y_def abs_mult [symmetric] algebra_simps)
  also have "\<dots> \<le> (1 / 536870912) * 20"
    using ue Q by (intro mult_mono) simp_all
  finally have ye: "\<bar>y - e * Q\<bar> \<le> 20 / 536870912"
    by simp
  have "\<bar>e * Q\<bar> = \<bar>e\<bar> * \<bar>Q\<bar>"
    by (rule abs_mult)
  also have "\<dots> \<le> 10000000 * 20"
    using e Q by (intro mult_mono) simp_all
  finally have eq: "\<bar>e * Q\<bar> \<le> 200000000"
    by simp
  have m: "m \<le> 200000001"
    unfolding m_def using ye eq by linarith
  have "\<bar>rnd64 y - y\<bar> \<le> m / 9007199254740992 + d"
    using rnd64_err [of y] by (simp add: d_def m_def)
  then have "\<bar>rnd64 y - e * Q\<bar> \<le> 1 / 8388608"
    using m d ye by linarith
  then show ?thesis
    by (simp add: fmul_def y_def u_def Q_def)
qed

lemma lineTotal_cents:
  fixes q C :: int
  assumes e: "\<bar>of_int C / 100 :: rat\<bar> \<le> 10000000" and q: "\<bar>q\<bar> \<le> 20"
  shows "\<lfloor>fmul (Number (of_int C / 100)) (of_int q) * 100 + 1 / 2\<rfloor> = C * q"
proof -
  define L where "L = fmul (Number (of_int C / 100)) (of_int q)"
  have "\<bar>L - of_int C / 100 * of_int q\<bar> \<le> 1 / 8388608"
    unfolding L_def using e q by (rule lineTotal_near)
  moreover have "(of_int C / 100 * of_int q :: rat) * 100 = of_int (C * q)"
    by simp
  ultimately have "of_int (C * q) \<le> L * 100 + 1 / 2" "L * 100 + 1 / 2 < of_int (C * q) + 1"
    by linarith+
  then have "\<lfloor>L * 100 + 1 / 2\<rfloor> = C * q"
    by (rule floor_unique)
  then show ?thesis
    by (simp add: L_def)
qed


lemma resolveModifiers_prices:
  "resolveModifiers cat menuItem groups ids = Inr ms \<Longrightarrow>
     \<exists>as. sequence_option
            (map (\<lambda>k. map_option mod_priceAdjustment
                         (find (\<lambda>m. mod_id m = k) (cat_modifiers cat))) ids) = Some as
        \<and> map vm_priceAdjustment ms = map Number as"
proof (induction ids arbitrary: ms)
  case Nil
  then show ?case by simp
next
  case (Cons k ids)
  then show ?case
    by (fastforce split: option.splits if_splits sum.splits)
qed

lemma validateOrderItem_Inr:
  assumes "validateOrderItem cat item = Inr v"
  shows "\<exists>(menuItem :: MenuItem) as.
           cataloguePrices cat item = Some (mi_basePrice menuItem, as)
         \<and> map vm_priceAdjustment (v_modifiers v) = map Number as
         \<and> v_unitPrice v = calculateItemPrice (Number (mi_basePrice menuItem)) (v_modifiers v)
         \<and> v_totalPrice v = fmul (v_unitPrice v) (of_int (in_quantity item))"
proof -
  obtain menuItem where m: "find (\<lambda>m. mi_id m = in_menuItemId item) (cat_menuItems cat) = Some menuItem"
    using assms by (auto simp: validateOrderItem_def split: option.splits)
  have "\<exists>as. sequence_option
            (map (\<lambda>k. map_option mod_priceAdjustment
                         (find (\<lambda>m. mod_id m = k) (cat_modifiers cat))) (selectedIds item)) = Some as
        \<and> map vm_priceAdjustment (v_modifiers v) = map Number as"
    using assms m
    by (auto simp: validateOrderItem_def selectedIds_def Let_def dest: resolveModifiers_prices
          split: if_splits sum.splits option.splits)
  then obtain as where as: "sequence_option
            (map (\<lambda>k. map_option mod_priceAdjustment
                         (find (\<lambda>m. mod_id m = k) (cat_modifiers cat))) (selectedIds item)) = Some as"
    and ms: "map vm_priceAdjustment (v_modifiers v) = map Number as"
    by blast
  have cp: "cataloguePrices cat item = Some (mi_basePrice menuItem, as)"
    by (simp add: cataloguePrices_def m as)
  have u: "v_unitPrice v = calculateItemPrice (Number (mi_basePrice menuItem)) (v_modifiers v)"
    and t: "v_totalPrice v = fmul (v_unitPrice v) (of_int (in_quantity item))"
    using assms m
    by (auto simp: validateOrderItem_def Let_def split: if_splits sum.splits option.splits)
  show ?thesis
    by (rule exI [where x = menuItem], rule exI [where x = as]) (intro conjI cp ms u t)
qed

lemma wholeCents_sum:
  "list_all wholeCents xs \<Longrightarrow> \<exists>C :: int. sum_list xs = of_int C / 100"
proof (induction xs)
  case Nil
  have "sum_list ([] :: rat list) = of_int 0 / 100" by simp
  then show ?case by blast
next
  case (Cons x xs)
  then obtain C :: int where C: "sum_list xs = of_int C / 100" by auto
  from Cons.prems have "of_int \<lfloor>x * 100\<rfloor> = x * 100" by (simp add: wholeCents_def)
  then have "x = of_int \<lfloor>x * 100\<rfloor> / 100" by linarith
  then have "x + sum_list xs = (of_int \<lfloor>x * 100\<rfloor> + of_int C) / 100"
    unfolding C add_divide_distrib by linarith
  then have "sum_list (x # xs) = of_int (\<lfloor>x * 100\<rfloor> + C) / 100"
    by simp
  then show ?case by blast
qed

lemma exactRound2_cents: "exactRound2 (of_int C / 100) = of_int C / 100"
proof -
  have "\<lfloor>(of_int C :: rat) + 1 / 2\<rfloor> = C"
    by (rule floor_unique) simp_all
  then show ?thesis by (simp add: exactRound2_def)
qed

lemma validateOrderItem_exact:
  assumes v: "validateOrderItem cat item = Inr v" and r: "realisticLine cat item"
  shows "pricedExactly cat item v \<and> v_totalPrice v = fmul (v_unitPrice v) (of_int (in_quantity item))"
proof -
  from validateOrderItem_Inr [OF v] obtain menuItem :: MenuItem and as where
    cp: "cataloguePrices cat item = Some (mi_basePrice menuItem, as)"
    and ms: "map vm_priceAdjustment (v_modifiers v) = map Number as"
    and u: "v_unitPrice v = calculateItemPrice (Number (mi_basePrice menuItem)) (v_modifiers v)"
    and t: "v_totalPrice v = fmul (v_unitPrice v) (of_int (in_quantity item))"
    by blast
  define b where "b = mi_basePrice menuItem"
  from r cp have q: "\<bar>in_quantity item\<bar> \<le> 20"
    and wc: "list_all wholeCents (b # as)"
    and bound: "\<bar>b\<bar> + sum_list (map abs as) \<le> 10000000"
    and n: "length as \<le> 1000"
    by (simp_all add: realisticLine_def b_def)
  from wholeCents_sum [OF wc] obtain C :: int where C: "b + sum_list as = of_int C / 100"
    by auto
  have unit: "v_unitPrice v = Number (of_int C / 100)"
    unfolding u b_def [symmetric] using C bound n ms by (rule calculateItemPrice_exact)
  have e: "\<bar>of_int C / 100 :: rat\<bar> \<le> 10000000"
    using sum_list_abs [of as] bound unfolding C [symmetric] by linarith
  have near: "\<bar>v_totalPrice v - of_int C / 100 * of_int (in_quantity item)\<bar> \<le> 1 / 8388608"
    unfolding t unit using e q by (rule lineTotal_near)
  have "\<lfloor>v_totalPrice v * 100 + 1 / 2\<rfloor> = C * in_quantity item"
    unfolding t unit using e q by (rule lineTotal_cents)
  then have cents: "exactRound2 (v_totalPrice v) = of_int C / 100 * of_int (in_quantity item)"
    by (simp add: exactRound2_def)
  show ?thesis
    using unit near cents t
    by (simp add: pricedExactly_def cp b_def [symmetric] C exactRound2_cents Let_def)
qed

text \<open>
  C6. Every validated cart line whose catalogue prices are whole cents (within the range
  of \<open>realisticLine\<close>) is priced exactly as far as JavaScript numbers allow: its unit
  price is the number nearest to the exact
  \<open>round(basePrice + sum of the selected modifiers' price adjustments, 2)\<close>, and its line
  total is the binary64 product of that unit price and the quantity, which lies within
  1/8388608 of the exact product and rounds to it at 2 decimals. The line total is not
  always the number nearest to the exact product: 9.70 times 3 gives
  29.099999999999998, not 29.10. The functions are deterministic: a repeated run returns
  the same values.
\<close>

theorem validateOrderItems_priced_exactly:
  "validateOrderItems cat items = Inr vs \<Longrightarrow> list_all (realisticLine cat) items \<Longrightarrow>
     list_all2 (\<lambda>item v. pricedExactly cat item v
                  \<and> v_totalPrice v = fmul (v_unitPrice v) (of_int (in_quantity item))) items vs"
proof (induction items arbitrary: vs)
  case Nil
  then show ?case by simp
next
  case (Cons item items)
  then show ?case
    by (auto split: sum.splits dest: validateOrderItem_exact)
qed


theorem validateOrderItems_priced_exactly_witness:
  "list_all2 (\<lambda>item v. pricedExactly ex_catalog item v
                \<and> v_totalPrice v = fmul (v_unitPrice v) (of_int (in_quantity item)))
     [ex_line 1 2 (Some [101])]
     (projr (validateOrderItems ex_catalog [ex_line 1 2 (Some [101])]))
   \<and> cataloguePrices ex_catalog (ex_line 1 2 (Some [101])) = Some (895 / 100, [75 / 100])
   \<and> map_sum id (map (\<lambda>v. (v_unitPrice v, v_totalPrice v)))
       (validateOrderItems ex_catalog [ex_line 1 2 (Some [101])])
       = Inr [(Number (970 / 100), Number (1940 / 100))]"
proof -
  have v: "validateOrderItems ex_catalog [ex_line 1 2 (Some [101])]
             = Inr (projr (validateOrderItems ex_catalog [ex_line 1 2 (Some [101])]))"
    by code_simp
  have r: "list_all (realisticLine ex_catalog) [ex_line 1 2 (Some [101])]"
    by code_simp
  have c: "cataloguePrices ex_catalog (ex_line 1 2 (Some [101])) = Some (895 / 100, [75 / 100])"
    by code_simp
  have e: "map_sum id (map (\<lambda>v. (v_unitPrice v, v_totalPrice v)))
       (validateOrderItems ex_catalog [ex_line 1 2 (Some [101])])
       = Inr [(Number (970 / 100), Number (1940 / 100))]"
    by code_simp
  from validateOrderItems_priced_exactly [OF v r] c e show ?thesis
    by (intro conjI)
qed

theorem validateOrderItems_priced_exactly_counterexample:
  "cataloguePrices ex_catalog (ex_line 1 3 (Some [101])) = Some (895 / 100, [75 / 100])
   \<and> exactRound2 (895 / 100 + 75 / 100) * 3 = 2910 / 100
   \<and> map_sum id (map (\<lambda>v. (v_unitPrice v, v_totalPrice v)))
       (validateOrderItems ex_catalog [ex_line 1 3 (Some [101])])
       = Inr [(Number (970 / 100), 8190921822280089 / 281474976710656)]
   \<and> Number (2910 / 100) = 4095460911140045 / 140737488355328
   \<and> (8190921822280089 / 281474976710656 :: rat) < 4095460911140045 / 140737488355328"
proof -
  have c: "cataloguePrices ex_catalog (ex_line 1 3 (Some [101])) = Some (895 / 100, [75 / 100])"
    by code_simp
  have x: "exactRound2 (895 / 100 + 75 / 100) * 3 = 2910 / 100"
    by code_simp
  have e: "map_sum id (map (\<lambda>v. (v_unitPrice v, v_totalPrice v)))
       (validateOrderItems ex_catalog [ex_line 1 3 (Some [101])])
       = Inr [(Number (970 / 100), 8190921822280089 / 281474976710656)]"
    by code_simp
  have n: "Number (2910 / 100) = 4095460911140045 / 140737488355328"
    by code_simp
  have l: "(8190921822280089 / 281474976710656 :: rat) < 4095460911140045 / 140737488355328"
    by simp
  from c x e n l show ?thesis
    by (intro conjI)
qed

text \<open>
  C2 on the code. The menu item Platter has one modifier group, Sides, required with
  \<open>minSelections = 2\<close> and \<open>maxSelections = 2\<close>. A line that selects 1 or 3 of its modifiers
  is rejected and a line that selects 2 is accepted, but a line that selects no modifier
  at all (the list absent or empty) is accepted too: the loop over the groups is only
  reached when the line selects something.
\<close>

theorem validateOrderItems_required_group_unchecked:
  "map_sum id (map (\<lambda>v. map vm_name (v_modifiers v)))
     (validateOrderItems ex_catalog [ex_line 2 1 None]) = Inr [[]]
   \<and> map_sum id (map (\<lambda>v. map vm_name (v_modifiers v)))
     (validateOrderItems ex_catalog [ex_line 2 1 (Some [])]) = Inr [[]]
   \<and> validateOrderItems ex_catalog [ex_line 2 1 (Some [201])] = Inl (RequiresAtLeast ''Sides'' 2)
   \<and> validateOrderItems ex_catalog [ex_line 2 1 (Some [201, 202, 203])]
       = Inl (AllowsMaximum ''Sides'' 2)
   \<and> validateOrderItems ex_catalog [ex_line 1 1 (Some [101]), ex_line 2 1 (Some [101])]
       = Inl (ModifierDoesNotBelong ''Cheese'' ''Platter'')
   \<and> map_sum id (map (\<lambda>v. map vm_name (v_modifiers v)))
     (validateOrderItems ex_catalog [ex_line 2 1 (Some [201, 202])]) = Inr [[''Fries'', ''Salad'']]"
  by code_simp

lemma order_create_ok:
  assumes "map_of (w_users w) userId = Some user"
  shows "\<exists>provisional w1.
           order_create now userId totals si est validatedItems w = (Inr provisional, w1)
         \<and> ord_id provisional = w_nextId w \<and> ord_status provisional = PENDING
         \<and> ord_paymentStatus provisional = PAYMENT_PENDING
         \<and> ord_stripePaymentIntentId provisional = None
         \<and> ord_totalAmount provisional = totalAmount totals
         \<and> w_orders w1 = w_orders w @ [provisional]
         \<and> w_users w1 = w_users w
         \<and> w_printJobs w1 = w_printJobs w
         \<and> w_trace w1 = w_trace w @ [OrderWritten (w_nextId w) PENDING PAYMENT_PENDING]"
  using assms by (simp add: order_create_def Let_def)

lemma order_find_append_fresh:
  "\<forall>order \<in> set os. ord_id order \<noteq> k \<Longrightarrow> ord_id new = k \<Longrightarrow>
     find (\<lambda>order. ord_id order = k) (os @ [new]) = Some new"
  by (induction os) auto

lemma filter_append_fresh:
  "\<forall>order \<in> set os. ord_id order \<noteq> k \<Longrightarrow> ord_id new = k \<Longrightarrow>
     filter (\<lambda>order. ord_id order \<noteq> k) (os @ [new]) = os"
  by (induction os) auto

text \<open>
  C1, as the code has it. Take a run of \<open>createOrder\<close> whose cart validates and whose
  user exists. If the payment intent is created and its confirmation returns a status
  other than \<open>succeeded\<close>, the run raises the payment-failed error, creates no print job
  and confirms no order, asks the gateway once to refund the intent, and leaves the
  provisional order in the table, still PENDING with payment status PENDING: a later
  lookup by its id finds it. The provisional order is deleted only when the failure
  comes before a payment intent exists (here: the creation of the intent fails).
\<close>

theorem createOrder_payment_not_succeeded:
  assumes v: "validateOrderItems cat (dto_items data) = Inr validatedItems"
    and u: "map_of (w_users w) userId = Some user"
    and fresh: "\<forall>order \<in> set (w_orders w). ord_id order \<noteq> w_nextId w"
    and run: "createOrder gw cat now userId data w = (r, w')"
  shows "let amountInCents = Math_round (fmul (totalAmount (calculateOrderTotals validatedItems)) 100);
             tempOrderId = w_nextId w
         in (\<forall>paymentIntentId status.
               gw_paymentIntents_create gw amountInCents userId tempOrderId = Inr paymentIntentId
             \<and> paymentIntentId \<noteq> []
             \<and> gw_paymentIntents_confirm gw paymentIntentId (dto_paymentMethodId data) = Inr status
             \<and> status \<noteq> ''succeeded'' \<longrightarrow>
               r = Inl (PaymentFailed status)
             \<and> w_printJobs w' = w_printJobs w
             \<and> (\<exists>provisional.
                    w_orders w' = w_orders w @ [provisional]
                  \<and> order_find tempOrderId w' = Some provisional
                  \<and> ord_status provisional = PENDING
                  \<and> ord_paymentStatus provisional = PAYMENT_PENDING)
             \<and> w_trace w' = w_trace w @
                   [OrderWritten tempOrderId PENDING PAYMENT_PENDING,
                    StripeIntentCreate amountInCents userId tempOrderId,
                    StripeIntentConfirm paymentIntentId (dto_paymentMethodId data),
                    StripeRefundCreate paymentIntentId None None])
          \<and> (\<forall>e. gw_paymentIntents_create gw amountInCents userId tempOrderId = Inl e \<longrightarrow>
               r = Inl e
             \<and> w_printJobs w' = w_printJobs w
             \<and> w_orders w' = w_orders w
             \<and> order_find tempOrderId w' = None
             \<and> w_trace w' = w_trace w @
                   [OrderWritten tempOrderId PENDING PAYMENT_PENDING,
                    StripeIntentCreate amountInCents userId tempOrderId,
                    OrderDeleted tempOrderId])"
proof -
  define totals where "totals = calculateOrderTotals validatedItems"
  define amountInCents where "amountInCents = Math_round (fmul (totalAmount totals) 100)"
  define est where "est = generateEstimatedReadyTime now validatedItems w"
  obtain provisional w1 where
    oc: "order_create now userId totals (dto_specialInstructions data) est validatedItems w
           = (Inr provisional, w1)"
    and p: "ord_id provisional = w_nextId w" "ord_status provisional = PENDING"
           "ord_paymentStatus provisional = PAYMENT_PENDING"
    and w1: "w_orders w1 = w_orders w @ [provisional]" "w_users w1 = w_users w"
            "w_printJobs w1 = w_printJobs w"
            "w_trace w1 = w_trace w @ [OrderWritten (w_nextId w) PENDING PAYMENT_PENDING]"
    using order_create_ok [OF u, of now totals "dto_specialInstructions data" est validatedItems]
    by blast
  have f1: "order_find (w_nextId w) w1 = Some provisional"
    using fresh p(1) by (simp add: order_find_def w1 order_find_append_fresh)
  have run': "(r, w') =
      (case createPaymentIntent gw amountInCents userId (w_nextId w) w1 of
         (Inl e, w2) \<Rightarrow> createOrder_catch gw None (Some (w_nextId w)) e w2
       | (Inr paymentIntentId, w2) \<Rightarrow>
           (case confirmPayment gw paymentIntentId (dto_paymentMethodId data) w2 of
              (Inl e, w3) \<Rightarrow>
                createOrder_catch gw (Some paymentIntentId) (Some (w_nextId w)) e w3
            | (Inr status, w3) \<Rightarrow>
                if status \<noteq> ''succeeded''
                then createOrder_catch gw (Some paymentIntentId) (Some (w_nextId w))
                       (PaymentFailed status) w3
                else
                  (case order_update (w_nextId w)
                          (\<lambda>order. order\<lparr> ord_status := CONFIRMED,
                                           ord_stripePaymentIntentId := Some paymentIntentId,
                                           ord_paymentStatus := PAID \<rparr>) w3 of
                     (Inl e, w4) \<Rightarrow>
                       createOrder_catch gw (Some paymentIntentId) (Some (w_nextId w)) e w4
                   | (Inr updatedOrder, w4) \<Rightarrow>
                       (case orderWithItems cat w4 updatedOrder of
                          None \<Rightarrow>
                            createOrder_catch gw (Some paymentIntentId)
                              (Some (w_nextId w)) PrismaForeignKey w4
                        | Some order \<Rightarrow>
                            (Inr order,
                             w4\<lparr> w_printJobs :=
                                    snd (createPrintJobs now order (w_printJobs w4)) \<rparr>)))))"
    using run v oc p(1)
    by (simp add: createOrder_def Let_def totals_def [symmetric] est_def [symmetric]
          amountInCents_def [symmetric])
  have a: "r = Inl (PaymentFailed status)
             \<and> w_printJobs w' = w_printJobs w
             \<and> (\<exists>provisional.
                    w_orders w' = w_orders w @ [provisional]
                  \<and> order_find (w_nextId w) w' = Some provisional
                  \<and> ord_status provisional = PENDING
                  \<and> ord_paymentStatus provisional = PAYMENT_PENDING)
             \<and> w_trace w' = w_trace w @
                   [OrderWritten (w_nextId w) PENDING PAYMENT_PENDING,
                    StripeIntentCreate amountInCents userId (w_nextId w),
                    StripeIntentConfirm paymentIntentId (dto_paymentMethodId data),
                    StripeRefundCreate paymentIntentId None None]"
    if "gw_paymentIntents_create gw amountInCents userId (w_nextId w) = Inr paymentIntentId"
      and "paymentIntentId \<noteq> []"
      and "gw_paymentIntents_confirm gw paymentIntentId (dto_paymentMethodId data) = Inr status"
      and "status \<noteq> ''succeeded''"
    for paymentIntentId status
  proof -
    have "(r, w') = (Inl (PaymentFailed status),
              emit (StripeRefundCreate paymentIntentId None None)
                (emit (StripeIntentConfirm paymentIntentId (dto_paymentMethodId data))
                   (emit (StripeIntentCreate amountInCents userId (w_nextId w)) w1)))"
      using run' that u
      by (simp add: createPaymentIntent_def confirmPayment_def createOrder_catch_def
            refundPayment_def w1 Let_def)
    then show ?thesis
      using w1 p f1 by (simp add: order_find_def)
  qed
  have b: "r = Inl e
             \<and> w_printJobs w' = w_printJobs w
             \<and> w_orders w' = w_orders w
             \<and> order_find (w_nextId w) w' = None
             \<and> w_trace w' = w_trace w @
                   [OrderWritten (w_nextId w) PENDING PAYMENT_PENDING,
                    StripeIntentCreate amountInCents userId (w_nextId w),
                    OrderDeleted (w_nextId w)]"
    if "gw_paymentIntents_create gw amountInCents userId (w_nextId w) = Inl e" for e
  proof -
    have "(r, w') = (Inl e,
              emit (OrderDeleted (w_nextId w))
                ((emit (StripeIntentCreate amountInCents userId (w_nextId w)) w1)
                   \<lparr> w_orders := filter (\<lambda>order. ord_id order \<noteq> w_nextId w)
                                       (w_orders w1) \<rparr>))"
      using run' that u f1
      by (simp add: createPaymentIntent_def createOrder_catch_def order_delete_def w1 Let_def)
    then show ?thesis
      using w1 p fresh
      by (simp add: order_find_def filter_append_fresh find_None_iff)
  qed
  show ?thesis
    unfolding Let_def totals_def [symmetric] amountInCents_def [symmetric]
    using a b by blast
qed


theorem createOrder_payment_not_succeeded_witness:
  "validateOrderItems ex_catalog (dto_items ex_dto)
     = Inr (projr (validateOrderItems ex_catalog (dto_items ex_dto)))
   \<and> map_of (w_users (ex_world [])) 1 = Some ex_user
   \<and> createOrder_summary (createOrder ex_gateway_declined ex_catalog 5 1 ex_dto (ex_world []))
       = (Inl (PaymentFailed ''requires_payment_method''),
          [(100, PENDING, PAYMENT_PENDING)],
          [],
          [OrderWritten 100 PENDING PAYMENT_PENDING, StripeIntentCreate 2512 1 100,
           StripeIntentConfirm ''pi_1'' ''pm_card_visa'', StripeRefundCreate ''pi_1'' None None])"
proof -
  have v: "validateOrderItems ex_catalog (dto_items ex_dto)
             = Inr (projr (validateOrderItems ex_catalog (dto_items ex_dto)))"
    by code_simp
  have u: "map_of (w_users (ex_world [])) 1 = Some ex_user"
    by (simp add: ex_world_def)
  have fresh: "\<forall>order \<in> set (w_orders (ex_world [])). ord_id order \<noteq> w_nextId (ex_world [])"
    by (simp add: ex_world_def)
  have run: "createOrder ex_gateway_declined ex_catalog 5 1 ex_dto (ex_world [])
               = (fst (createOrder ex_gateway_declined ex_catalog 5 1 ex_dto (ex_world [])),
                  snd (createOrder ex_gateway_declined ex_catalog 5 1 ex_dto (ex_world [])))"
    by simp
  have e: "createOrder_summary (createOrder ex_gateway_declined ex_catalog 5 1 ex_dto (ex_world []))
       = (Inl (PaymentFailed ''requires_payment_method''),
          [(100, PENDING, PAYMENT_PENDING)],
          [],
          [OrderWritten 100 PENDING PAYMENT_PENDING, StripeIntentCreate 2512 1 100,
           StripeIntentConfirm ''pi_1'' ''pm_card_visa'', StripeRefundCreate ''pi_1'' None None])"
    by code_simp
  have w: "validateOrderItems ex_catalog (dto_items ex_dto)
     = Inr (projr (validateOrderItems ex_catalog (dto_items ex_dto)))
   \<and> map_of (w_users (ex_world [])) 1 = Some ex_user
   \<and> createOrder_summary (createOrder ex_gateway_declined ex_catalog 5 1 ex_dto (ex_world []))
       = (Inl (PaymentFailed ''requires_payment_method''),
          [(100, PENDING, PAYMENT_PENDING)],
          [],
          [OrderWritten 100 PENDING PAYMENT_PENDING, StripeIntentCreate 2512 1 100,
           StripeIntentConfirm ''pi_1'' ''pm_card_visa'', StripeRefundCreate ''pi_1'' None None])"
    by (intro conjI v u e)
  show ?thesis
    using createOrder_payment_not_succeeded [OF v u fresh run]
    by - (rule w)
qed

text \<open>
  Against C1 as stated: after a confirmation with status \<open>requires_payment_method\<close> the
  lookup of the provisional order by its id still finds it, PENDING.
\<close>

theorem createOrder_payment_not_succeeded_counterexample:
  "(map_sum id owi_id (fst (createOrder ex_gateway_declined ex_catalog 5 1 ex_dto (ex_world []))),
    map_option (\<lambda>order. (ord_status order, ord_paymentStatus order))
       (order_find 100 (snd (createOrder ex_gateway_declined ex_catalog 5 1 ex_dto (ex_world [])))))
     = (Inl (PaymentFailed ''requires_payment_method''), Some (PENDING, PAYMENT_PENDING))"
  by code_simp






end
